theory Spec2Isabelle
  imports Complex_Main "HOL-Library.Sublist" "HOL-Library.List_Lexorder" "HOL-Library.Char_ord"
begin

section \<open>Text and the similarity engine\<close>

text \<open>
  JavaScript strings are modelled as HOL strings holding ASCII text. \<open>toLowerCase\<close> folds
  the letters A to Z; \<open>is_space\<close> is the ASCII part of the regular expression class
  \<^verbatim>\<open>\s\<close> (tab, line feed, vertical tab, form feed, carriage return, space).
  Text with characters outside ASCII lies outside the model: there JavaScript also folds
  letters such as \<^verbatim>\<open>U+00C9\<close> and splits at white space such as \<^verbatim>\<open>U+00A0\<close>, and
  every statement below is about ASCII text only.
  Scores are JavaScript doubles in the source; they are modelled as exact rationals, which
  agrees with the source's comparisons for every word count a string can have.
\<close>

definition is_space :: "char \<Rightarrow> bool" where
  "is_space c = (c \<in> set [CHR 0x09, CHR 0x0A, CHR 0x0B, CHR 0x0C, CHR 0x0D, CHR '' ''])"

definition lower_char :: "char \<Rightarrow> char" where
  "lower_char c =
     (case map_of (zip ''ABCDEFGHIJKLMNOPQRSTUVWXYZ'' ''abcdefghijklmnopqrstuvwxyz'') c of
        None \<Rightarrow> c
      | Some l \<Rightarrow> l)"

definition toLowerCase :: "string \<Rightarrow> string" where
  "toLowerCase s = map lower_char s"

lemma dropWhile_space_shorter:
  assumes "r = dropWhile (\<lambda>c. \<not> is_space c) s" and "r \<noteq> []"
  shows "length (dropWhile is_space r) < length s"
proof -
  from assms(2) obtain a t where r: "r = a # t" by (cases r) auto
  with assms(1) have "is_space a"
    by (auto simp: dropWhile_eq_Cons_conv dest: sym)
  with r have "length (dropWhile is_space r) \<le> length t"
    by (simp add: length_dropWhile_le)
  also have "\<dots> < length r" using r by simp
  also have "\<dots> \<le> length s" using assms(1) by (simp add: length_dropWhile_le)
  finally show ?thesis .
qed

text \<open>
  \<^verbatim>\<open>s.split(/\s+/)\<close>: the pieces between maximal runs of white space. A leading or
  trailing run leaves an empty first or last piece, and the empty string splits into the
  one-element list holding the empty string; the result is never the empty list.
\<close>

function split_ws :: "string \<Rightarrow> string list" where
  "split_ws s =
     (let w = takeWhile (\<lambda>c. \<not> is_space c) s;
          r = dropWhile (\<lambda>c. \<not> is_space c) s
      in if r = [] then [w] else w # split_ws (dropWhile is_space r))"
  by pat_completeness auto
termination
  by (relation "measure length") (simp_all add: dropWhile_space_shorter)

text \<open>\<^verbatim>\<open>a.includes(b)\<close>: \<open>b\<close> occurs in \<open>a\<close> as a contiguous piece.\<close>

fun js_includes :: "string \<Rightarrow> string \<Rightarrow> bool" where
  "js_includes [] b = (b = [])"
| "js_includes (c # cs) b = (prefix b (c # cs) \<or> js_includes cs b)"

text \<open>
  \<^verbatim>\<open>calculateTextSimilarity\<close> of memory-store.ts. The \<^verbatim>\<open>for\<close> loop over the query
  words is \<open>count_matches\<close>, with the counter \<^verbatim>\<open>matches\<close> as accumulator;
  \<^verbatim>\<open>content.some(...)\<close> is \<open>list_ex\<close>.
\<close>

fun count_matches :: "string list \<Rightarrow> string list \<Rightarrow> nat \<Rightarrow> nat" where
  "count_matches [] content matches = matches"
| "count_matches (queryWord # rest) content matches =
     count_matches rest content
       (if list_ex (\<lambda>contentWord. js_includes contentWord queryWord \<or> js_includes queryWord contentWord)
             content
        then matches + 1 else matches)"

definition calculateTextSimilarity :: "string \<Rightarrow> string \<Rightarrow> rat" where
  "calculateTextSimilarity text1 text2 =
     (let query = split_ws (toLowerCase text1);
          content = split_ws (toLowerCase text2);
          matches = count_matches query content 0
      in if length query > 0 then of_nat matches / of_nat (length query) else 0)"

text \<open>
  \<^verbatim>\<open>simpleTextSimilarity\<close> of ollama-client.ts. A JavaScript \<^verbatim>\<open>Set\<close> built from an
  array keeps the first occurrence of each element, which is \<open>remdups_first\<close>.
\<close>

fun remdups_first :: "string list \<Rightarrow> string list" where
  "remdups_first [] = []"
| "remdups_first (x # xs) = x # remdups_first (filter (\<lambda>y. y \<noteq> x) xs)"

definition simpleTextSimilarity :: "string \<Rightarrow> string \<Rightarrow> rat" where
  "simpleTextSimilarity text1 text2 =
     (let words1 = remdups_first (split_ws (toLowerCase text1));
          words2 = remdups_first (split_ws (toLowerCase text2));
          intersection = remdups_first (filter (\<lambda>x. x \<in> set words2) words1);
          union = remdups_first (words1 @ words2)
      in of_nat (length intersection) / of_nat (length union))"

text \<open>
  The score as the specification words it, written without the functions above. The words
  of a text are its maximal runs of characters that are no white space, so a word is never
  empty and a text of white space only has no word. The score is the number of query words
  that are a substring of some content word, or have some content word as a substring, over
  the number of query words, and 0 for a query without words.
\<close>

fun spec_words :: "string \<Rightarrow> string list" where
  "spec_words [] = []"
| "spec_words (c # cs) =
     (if is_space c then spec_words cs
      else if cs = [] \<or> is_space (hd cs) then [c] # spec_words cs
      else (case spec_words cs of [] \<Rightarrow> [[c]] | w # ws \<Rightarrow> (c # w) # ws))"

definition coverage_spec :: "string \<Rightarrow> string \<Rightarrow> rat" where
  "coverage_spec q c =
     (let qs = spec_words (toLowerCase q); cs = spec_words (toLowerCase c)
      in if qs = [] then 0
         else of_nat (length (filter (\<lambda>qw. \<exists>cw \<in> set cs. sublist qw cw \<or> sublist cw qw) qs))
                / of_nat (length qs))"

text \<open>A text that is not empty and neither starts nor ends with white space.\<close>

definition trimmed :: "string \<Rightarrow> bool" where
  "trimmed s = (s \<noteq> [] \<and> \<not> is_space (hd s) \<and> \<not> is_space (last s))"


section \<open>The persistent store\<close>

subsection \<open>Errors, rows and the database\<close>

text \<open>
  Every \<^verbatim>\<open>throw\<close> and every rejected promise is a value of \<open>error\<close>:
  \<open>NotInitialized\<close> is \<^verbatim>\<open>new Error('Database not initialized')\<close>, \<open>SqliteError\<close> a
  statement the database engine rejects, \<open>TypeError\<close> and \<open>RangeError\<close> the JavaScript
  runtime's own errors, \<open>McpError\<close> the protocol error of the direct transport with its
  error code.
\<close>

datatype error =
    NotInitialized
  | SqliteError string
  | TypeError string
  | RangeError string
  | McpError int string

text \<open>
  One row of table \<^verbatim>\<open>memories\<close> and of table \<^verbatim>\<open>todos\<close>, with the columns of
  \<^verbatim>\<open>createTables\<close>. A nullable column is an \<open>option\<close>. The fields carry the prefix
  \<open>m_\<close> or \<open>t_\<close> since both tables share column names.
\<close>

record mem_row =
  m_id :: string
  m_content :: string
  m_original_content :: "string option"
  m_context :: string
  m_importance :: int
  m_timestamp :: string
  m_source :: string
  m_project :: "string option"
  m_category :: "string option"
  m_tags :: "string option"
  m_embedding :: "string option"
  m_created_at :: string
  m_updated_at :: string

record todo_row =
  t_id :: string
  t_content :: string
  t_status :: string
  t_priority :: string
  t_project :: "string option"
  t_context :: "string option"
  t_tags :: "string option"
  t_created_at :: string
  t_updated_at :: string

text \<open>
  The variable \<^verbatim>\<open>db\<close> of \<^verbatim>\<open>createMemoryStore\<close> is \<open>None\<close> until
  \<^verbatim>\<open>initialize\<close> assigns the connection. A connection knows whether it was closed and,
  while a transaction is open, the tables as they were at \<^verbatim>\<open>BEGIN TRANSACTION\<close>.
  The tables themselves belong to the database file: they are lists of rows in insertion order.
\<close>

record connection =
  closed :: bool
  txn :: "(mem_row list \<times> todo_row list) option"

record store =
  deduplication :: "bool option"
  db :: "connection option"
  memories :: "mem_row list"
  todos :: "todo_row list"

definition closed_error :: error where
  "closed_error = SqliteError ''SQLITE_MISUSE: Database is closed''"

text \<open>\<^verbatim>\<open>initialize\<close>: opens the file and creates the tables if they do not exist.\<close>

definition initialize :: "store \<Rightarrow> store" where
  "initialize s = s\<lparr>db := Some \<lparr>closed = False, txn = None\<rparr>\<rparr>"

subsection \<open>The SQL the store runs\<close>

text \<open>
  \<^verbatim>\<open>text LIKE pattern\<close> of SQLite: \<^verbatim>\<open>%\<close> matches any run of characters,
  \<^verbatim>\<open>_\<close> any one character, and letters match without regard to ASCII case.
\<close>

fun sql_like :: "string \<Rightarrow> string \<Rightarrow> bool" where
  "sql_like [] s = (s = [])"
| "sql_like (p # ps) s =
     (if p = CHR ''%''
      then (sql_like ps s \<or> (case s of [] \<Rightarrow> False | c # t \<Rightarrow> sql_like (p # ps) t))
      else (case s of
              [] \<Rightarrow> False
            | c # t \<Rightarrow> (p = CHR ''_'' \<or> lower_char p = lower_char c) \<and> sql_like ps t))"

text \<open>
  \<^verbatim>\<open>ORDER BY key DESC\<close>. SQLite leaves the order of rows with equal keys open, and
  which of them it returns first depends on the plan it chooses; the model keeps them in
  table order. Under a \<^verbatim>\<open>LIMIT\<close> the database may therefore keep other rows among
  those with equal keys than the model does. \<^verbatim>\<open>LIMIT n\<close> with a negative \<open>n\<close> is no
  limit.
\<close>

definition order_by_desc :: "('a \<Rightarrow> 'k::linorder) \<Rightarrow> 'a list \<Rightarrow> 'a list" where
  "order_by_desc key rows = rev (sort_key key (rev rows))"

definition sql_limit :: "int \<Rightarrow> 'a list \<Rightarrow> 'a list" where
  "sql_limit n rows = (if n < 0 then rows else take (nat n) rows)"

text \<open>\<^verbatim>\<open>INSERT INTO memories\<close>: column \<^verbatim>\<open>id\<close> is the primary key.\<close>

definition insert_memory :: "mem_row \<Rightarrow> mem_row list \<Rightarrow> error + mem_row list" where
  "insert_memory r rows =
     (if list_ex (\<lambda>x. m_id x = m_id r) rows
      then Inl (SqliteError ''SQLITE_CONSTRAINT: UNIQUE constraint failed: memories.id'')
      else Inr (rows @ [r]))"

definition insert_todo :: "todo_row \<Rightarrow> todo_row list \<Rightarrow> error + todo_row list" where
  "insert_todo r rows =
     (if list_ex (\<lambda>x. t_id x = t_id r) rows
      then Inl (SqliteError ''SQLITE_CONSTRAINT: UNIQUE constraint failed: todos.id'')
      else Inr (rows @ [r]))"

text \<open>
  What a call draws from its environment: the token of \<^verbatim>\<open>generateId()\<close>, the string of
  \<^verbatim>\<open>new Date().toISOString()\<close> and SQLite's \<^verbatim>\<open>CURRENT_TIMESTAMP\<close>.
\<close>

record clock =
  new_id :: string
  iso_now :: string
  sql_now :: string

text \<open>A parameter bound to a statement by this program is a string or a number.\<close>

datatype sql_value = SqlText string | SqlInt int

definition memories_columns :: "string list" where
  "memories_columns =
     [''id'', ''content'', ''original_content'', ''context'', ''importance'', ''timestamp'',
      ''source'', ''project'', ''category'', ''tags'', ''embedding'', ''created_at'',
      ''updated_at'']"

text \<open>
  One assignment \<^verbatim>\<open>column = ?\<close> of an \<^verbatim>\<open>UPDATE memories\<close>, for a value of the
  column's declared type. (A value of another type leaves the row as it is here; the program
  binds none.)
\<close>

fun set_column :: "string \<times> sql_value \<Rightarrow> mem_row \<Rightarrow> mem_row" where
  "set_column (k, SqlText v) r =
     (if k = ''id'' then r\<lparr>m_id := v\<rparr>
      else if k = ''content'' then r\<lparr>m_content := v\<rparr>
      else if k = ''original_content'' then r\<lparr>m_original_content := Some v\<rparr>
      else if k = ''context'' then r\<lparr>m_context := v\<rparr>
      else if k = ''timestamp'' then r\<lparr>m_timestamp := v\<rparr>
      else if k = ''source'' then r\<lparr>m_source := v\<rparr>
      else if k = ''project'' then r\<lparr>m_project := Some v\<rparr>
      else if k = ''category'' then r\<lparr>m_category := Some v\<rparr>
      else if k = ''tags'' then r\<lparr>m_tags := Some v\<rparr>
      else if k = ''embedding'' then r\<lparr>m_embedding := Some v\<rparr>
      else if k = ''created_at'' then r\<lparr>m_created_at := v\<rparr>
      else if k = ''updated_at'' then r\<lparr>m_updated_at := v\<rparr>
      else r)"
| "set_column (k, SqlInt v) r = (if k = ''importance'' then r\<lparr>m_importance := v\<rparr> else r)"

text \<open>
  \<^verbatim>\<open>updateMemory\<close>: the statement
  \<^verbatim>\<open>UPDATE memories SET k1 = ?, ..., updated_at = CURRENT_TIMESTAMP WHERE id = ?\<close>, its
  \<^verbatim>\<open>SET\<close> clause built from the keys of \<^verbatim>\<open>updates\<close>. SQLite rejects the statement
  when a key names no column of the table.
\<close>

definition updateMemory ::
  "string \<Rightarrow> string \<Rightarrow> (string \<times> sql_value) list \<Rightarrow> mem_row list \<Rightarrow> error + mem_row list" where
  "updateMemory now ident updates rows =
     (case find (\<lambda>k. k \<notin> set memories_columns) (map fst updates) of
        Some k \<Rightarrow> Inl (SqliteError (''SQLITE_ERROR: no such column: '' @ k))
      | None \<Rightarrow>
          Inr (map (\<lambda>r. if m_id r = ident then (fold set_column updates r)\<lparr>m_updated_at := now\<rparr> else r)
                 rows))"


subsection \<open>Values handed to callers\<close>

text \<open>
  \<^verbatim>\<open>SELECT *\<close> yields one object per row, its properties named after the columns.
  \<^verbatim>\<open>{...memory, createdAt: memory.createdAt || memory.timestamp, updatedAt: ...}\<close> adds two
  properties to such an object; a row object has no property \<^verbatim>\<open>createdAt\<close>, so both
  take the value of \<^verbatim>\<open>timestamp\<close>. Search results carry \<^verbatim>\<open>similarity\<close> as well.
\<close>

record row_memory = mem_row +
  createdAt :: string
  updatedAt :: string

record scored_memory = row_memory +
  similarity :: rat

definition with_dates :: "mem_row \<Rightarrow> row_memory" where
  "with_dates memory =
     mem_row.extend memory (row_memory.fields (m_timestamp memory) (m_timestamp memory))"

definition with_similarity :: "rat \<Rightarrow> row_memory \<Rightarrow> scored_memory" where
  "with_similarity sim memory = row_memory.extend memory (scored_memory.fields sim)"

text \<open>The interfaces of types.ts. An optional property is an \<open>option\<close>.\<close>

record StoredMemory =
  sm_id :: string
  sm_content :: string
  sm_originalContent :: "string option"
  sm_context :: string
  sm_importance :: int
  sm_timestamp :: string
  sm_source :: string
  sm_project :: "string option"
  sm_category :: "string option"
  sm_tags :: "string list option"
  sm_createdAt :: string
  sm_updatedAt :: string

text \<open>
  \<^verbatim>\<open>MemoryData\<close> as \<^verbatim>\<open>addMemory\<close> reads it: \<^verbatim>\<open>context\<close>, \<^verbatim>\<open>importance\<close> and
  \<^verbatim>\<open>source\<close> have defaults in the destructuring, so they may be absent; \<^verbatim>\<open>content\<close>
  is absent when the HTTP bridge forwards an argument object without it.
\<close>

record MemoryData =
  d_content :: "string option"
  d_originalContent :: "string option"
  d_context :: "string option"
  d_importance :: "int option"
  d_timestamp :: string
  d_source :: "string option"
  d_project :: "string option"
  d_category :: "string option"
  d_tags :: "string list option"

text \<open>
  \<^verbatim>\<open>addMemory\<close> returns an object literal after an insertion and the row object it found,
  with four properties overwritten, after a merge.
\<close>

datatype added = Inserted StoredMemory | Merged row_memory

fun added_id :: "added \<Rightarrow> string" where
  "added_id (Inserted m) = sm_id m"
| "added_id (Merged m) = m_id m"

fun added_content :: "added \<Rightarrow> string" where
  "added_content (Inserted m) = sm_content m"
| "added_content (Merged m) = m_content m"

fun added_importance :: "added \<Rightarrow> int" where
  "added_importance (Inserted m) = sm_importance m"
| "added_importance (Merged m) = m_importance m"

text \<open>
  Functions of the JavaScript runtime and of SQLite that the store calls:
  \<^verbatim>\<open>JSON.stringify\<close> on a list of tags, \<^verbatim>\<open>JSON.parse\<close> read as such a list
  (\<open>None\<close> when it throws a \<^verbatim>\<open>SyntaxError\<close>), and SQLite's \<^verbatim>\<open>datetime()\<close>
  (\<open>None\<close> for \<^verbatim>\<open>NULL\<close>).
\<close>

record runtime =
  JSON_stringify :: "string list \<Rightarrow> string"
  JSON_parse :: "string \<Rightarrow> string list option"
  sql_datetime :: "string \<Rightarrow> string option"

text \<open>\<^verbatim>\<open>a || b\<close> on strings, and the truth value of an optional string.\<close>

definition js_or :: "string \<Rightarrow> string \<Rightarrow> string" where
  "js_or a b = (if a = [] then b else a)"

fun or_default :: "string option \<Rightarrow> string \<Rightarrow> string" where
  "or_default None b = b"
| "or_default (Some a) b = js_or a b"

fun truthy :: "string option \<Rightarrow> bool" where
  "truthy None = False"
| "truthy (Some a) = (a \<noteq> [])"

subsection \<open>Memories\<close>

text \<open>The loop of \<^verbatim>\<open>findSimilarMemory\<close> over the candidate rows.\<close>

fun first_similar :: "string \<Rightarrow> rat \<Rightarrow> mem_row list \<Rightarrow> row_memory option" where
  "first_similar content threshold [] = None"
| "first_similar content threshold (memory # rest) =
     (if calculateTextSimilarity content (m_content memory) > threshold
      then Some (with_dates memory)
      else first_similar content threshold rest)"

definition similar_candidates :: "mem_row list \<Rightarrow> string \<Rightarrow> string \<Rightarrow> mem_row list" where
  "similar_candidates rows content ctx =
     sql_limit 5
       (order_by_desc m_created_at
          (filter (\<lambda>r. m_context r = ctx \<and> sql_like (''%'' @ take 50 content @ ''%'') (m_content r))
             rows))"

definition findSimilarMemory ::
  "mem_row list \<Rightarrow> string \<Rightarrow> string \<Rightarrow> rat \<Rightarrow> row_memory option" where
  "findSimilarMemory rows content ctx threshold =
     first_similar content threshold (similar_candidates rows content ctx)"

text \<open>
  The second half of \<^verbatim>\<open>addMemory\<close>: the \<^verbatim>\<open>INSERT\<close> and the object it returns.
  Columns \<^verbatim>\<open>created_at\<close> and \<^verbatim>\<open>updated_at\<close> take their default
  \<^verbatim>\<open>CURRENT_TIMESTAMP\<close>; column \<^verbatim>\<open>content\<close> is \<^verbatim>\<open>NOT NULL\<close>.
\<close>

definition addMemory_insert ::
  "runtime \<Rightarrow> clock \<Rightarrow> MemoryData \<Rightarrow> connection \<Rightarrow> store \<Rightarrow> (error + added) \<times> store" where
  "addMemory_insert rt ck memoryData conn s =
     (let ident = new_id ck;
          ctx = (case d_context memoryData of None \<Rightarrow> ''general'' | Some c \<Rightarrow> c);
          importance = (case d_importance memoryData of None \<Rightarrow> 5 | Some i \<Rightarrow> i);
          source = (case d_source memoryData of None \<Rightarrow> ''manual'' | Some x \<Rightarrow> x);
          now = iso_now ck;
          tagsJson = map_option (JSON_stringify rt) (d_tags memoryData)
      in if closed conn then (Inl closed_error, s)
         else
           (case d_content memoryData of
              None \<Rightarrow>
                (Inl (SqliteError ''SQLITE_CONSTRAINT: NOT NULL constraint failed: memories.content''), s)
            | Some content \<Rightarrow>
                (case insert_memory
                        \<lparr>m_id = ident, m_content = content,
                         m_original_content = d_originalContent memoryData, m_context = ctx,
                         m_importance = importance, m_timestamp = d_timestamp memoryData,
                         m_source = source, m_project = d_project memoryData,
                         m_category = d_category memoryData, m_tags = tagsJson,
                         m_embedding = None, m_created_at = sql_now ck,
                         m_updated_at = sql_now ck\<rparr>
                        (memories s) of
                   Inl e \<Rightarrow> (Inl e, s)
                 | Inr rows \<Rightarrow>
                     (Inr (Inserted
                        \<lparr>sm_id = ident, sm_content = content,
                         sm_originalContent = d_originalContent memoryData, sm_context = ctx,
                         sm_importance = importance, sm_timestamp = d_timestamp memoryData,
                         sm_source = source, sm_project = d_project memoryData,
                         sm_category = d_category memoryData, sm_tags = d_tags memoryData,
                         sm_createdAt = now, sm_updatedAt = now\<rparr>),
                      s\<lparr>memories := rows\<rparr>))))"

text \<open>
  \<^verbatim>\<open>addMemory\<close>. Deduplication is on unless the configuration says \<^verbatim>\<open>false\<close>;
  \<^verbatim>\<open>findSimilarMemory\<close> is called without a threshold, so with its default 0.9. With
  \<^verbatim>\<open>content\<close> absent, \<^verbatim>\<open>content.slice\<close> throws.
\<close>

definition addMemory ::
  "runtime \<Rightarrow> clock \<Rightarrow> MemoryData \<Rightarrow> store \<Rightarrow> (error + added) \<times> store" where
  "addMemory rt ck memoryData s =
     (case db s of
        None \<Rightarrow> (Inl NotInitialized, s)
      | Some conn \<Rightarrow>
          (let ctx = (case d_context memoryData of None \<Rightarrow> ''general'' | Some c \<Rightarrow> c);
               importance = (case d_importance memoryData of None \<Rightarrow> 5 | Some i \<Rightarrow> i)
           in if deduplication s \<noteq> Some False
              then
                (case d_content memoryData of
                   None \<Rightarrow> (Inl (TypeError ''Cannot read properties of undefined''), s)
                 | Some content \<Rightarrow>
                     if closed conn then (Inl closed_error, s)
                     else
                       (case findSimilarMemory (memories s) content ctx (9 / 10) of
                          Some existing \<Rightarrow>
                            (case updateMemory (sql_now ck) (m_id existing)
                                    [(''content'', SqlText content),
                                     (''importance'', SqlInt (max (m_importance existing) importance)),
                                     (''updatedAt'', SqlText (iso_now ck))]
                                    (memories s) of
                               Inl e \<Rightarrow> (Inl e, s)
                             | Inr rows \<Rightarrow>
                                 (Inr (Merged
                                    (existing\<lparr>m_content := content, m_importance := importance,
                                       createdAt := js_or (createdAt existing) (m_timestamp existing),
                                       updatedAt := iso_now ck\<rparr>)),
                                  s\<lparr>memories := rows\<rparr>))
                        | None \<Rightarrow> addMemory_insert rt ck memoryData conn s))
              else addMemory_insert rt ck memoryData conn s))"

text \<open>
  \<^verbatim>\<open>searchMemories\<close>: the \<^verbatim>\<open>LIKE\<close> filter on the lower-case query words, the
  order by importance and creation time, the limit, then the scoring, the threshold filter
  and the stable sort by score.
\<close>

record SearchOptions =
  o_limit :: "int option"
  o_context :: "string option"
  o_threshold :: "rat option"

definition search_candidates :: "string list \<Rightarrow> string option \<Rightarrow> mem_row list \<Rightarrow> mem_row list" where
  "search_candidates queryWords ctx rows =
     filter (\<lambda>r. (if truthy ctx then Some (m_context r) = ctx else True) \<and>
                 list_ex (\<lambda>word. sql_like (''%'' @ word @ ''%'') (m_content r)) queryWords)
       rows"

definition searchMemories ::
  "string option \<Rightarrow> SearchOptions \<Rightarrow> store \<Rightarrow> (error + scored_memory list) \<times> store" where
  "searchMemories query options s =
     (case db s of
        None \<Rightarrow> (Inl NotInitialized, s)
      | Some conn \<Rightarrow>
          (let limit = (case o_limit options of None \<Rightarrow> 5 | Some n \<Rightarrow> n);
               threshold = (case o_threshold options of None \<Rightarrow> 1 / 10 | Some t \<Rightarrow> t)
           in case query of
                None \<Rightarrow> (Inl (TypeError ''Cannot read properties of undefined''), s)
              | Some q \<Rightarrow>
                  if closed conn then (Inl closed_error, s)
                  else
                    (let queryWords = split_ws (toLowerCase q);
                         rows = sql_limit limit
                                  (order_by_desc m_importance
                                     (order_by_desc m_created_at
                                        (search_candidates queryWords (o_context options) (memories s))))
                     in (Inr (order_by_desc similarity
                               (filter (\<lambda>memory. similarity memory \<ge> threshold)
                                  (map (\<lambda>memory. with_similarity
                                                     (calculateTextSimilarity q (m_content memory))
                                                     (with_dates memory))
                                     rows))),
                         s))))"

text \<open>
  \<^verbatim>\<open>getMemories\<close>. \<^verbatim>\<open>since\<close> is a \<^verbatim>\<open>Date\<close>: \<open>Some iso\<close> with its
  \<^verbatim>\<open>toISOString()\<close>, or \<open>None\<close> for an invalid date, on which \<^verbatim>\<open>toISOString\<close>
  throws a \<^verbatim>\<open>RangeError\<close>.
\<close>

type_synonym js_date = "string option"

record GetMemoriesOptions =
  g_context :: "string option"
  g_limit :: "int option"
  g_since :: "js_date option"

definition since_ok :: "runtime \<Rightarrow> string \<Rightarrow> mem_row \<Rightarrow> bool" where
  "since_ok rt since_iso r =
     (case (sql_datetime rt (m_timestamp r), sql_datetime rt since_iso) of
        (Some a, Some b) \<Rightarrow> a \<ge> b
      | _ \<Rightarrow> False)"

definition getMemories ::
  "runtime \<Rightarrow> GetMemoriesOptions \<Rightarrow> store \<Rightarrow> (error + row_memory list) \<times> store" where
  "getMemories rt options s =
     (case db s of
        None \<Rightarrow> (Inl NotInitialized, s)
      | Some conn \<Rightarrow>
          (let limit = (case g_limit options of None \<Rightarrow> 10 | Some n \<Rightarrow> n)
           in case g_since options of
                Some None \<Rightarrow> (Inl (RangeError ''Invalid time value''), s)
              | since \<Rightarrow>
                  if closed conn then (Inl closed_error, s)
                  else
                    (Inr (map with_dates
                            (sql_limit limit
                               (order_by_desc m_created_at
                                  (filter (\<lambda>r. (if truthy (g_context options)
                                                 then Some (m_context r) = g_context options else True) \<and>
                                                (case since of
                                                   Some (Some since_iso) \<Rightarrow> since_ok rt since_iso r
                                                 | _ \<Rightarrow> True))
                                     (memories s))))),
                     s)))"

text \<open>
  \<^verbatim>\<open>deleteMemory\<close> and \<^verbatim>\<open>getMemoryById\<close>. An absent \<^verbatim>\<open>id\<close> is bound as
  \<^verbatim>\<open>NULL\<close>, which no row's \<^verbatim>\<open>id\<close> equals.
\<close>

definition deleteMemory :: "string option \<Rightarrow> store \<Rightarrow> (error + bool) \<times> store" where
  "deleteMemory ident s =
     (case db s of
        None \<Rightarrow> (Inl NotInitialized, s)
      | Some conn \<Rightarrow>
          if closed conn then (Inl closed_error, s)
          else
            (let rows = filter (\<lambda>r. Some (m_id r) \<noteq> ident) (memories s);
                 changes = length (memories s) - length rows
             in (Inr (changes > 0), s\<lparr>memories := rows\<rparr>)))"

definition getMemoryById :: "string option \<Rightarrow> store \<Rightarrow> (error + row_memory option) \<times> store" where
  "getMemoryById ident s =
     (case db s of
        None \<Rightarrow> (Inl NotInitialized, s)
      | Some conn \<Rightarrow>
          if closed conn then (Inl closed_error, s)
          else (Inr (map_option with_dates (find (\<lambda>r. Some (m_id r) = ident) (memories s))), s))"


subsection \<open>Projects and the memory bank\<close>

text \<open>\<^verbatim>\<open>s.split(',')\<close> and \<^verbatim>\<open>xs.join(sep)\<close>.\<close>

fun split_on :: "char \<Rightarrow> string \<Rightarrow> string list" where
  "split_on sep [] = [[]]"
| "split_on sep (c # cs) =
     (if c = sep then [] # split_on sep cs
      else (case split_on sep cs of [] \<Rightarrow> [[c]] | w # ws \<Rightarrow> (c # w) # ws))"

fun join :: "string \<Rightarrow> string list \<Rightarrow> string" where
  "join sep [] = []"
| "join sep [x] = x"
| "join sep (x # y # ys) = x @ sep @ join sep (y # ys)"

record ProjectMemoryStats =
  ps_project :: string
  ps_totalMemories :: nat
  ps_categories :: "string list"
  ps_lastUpdated :: string

text \<open>
  One group of \<^verbatim>\<open>GROUP BY project\<close>: the count, \<^verbatim>\<open>GROUP_CONCAT(DISTINCT category)\<close>
  (\<^verbatim>\<open>NULL\<close> when every category of the group is) and \<^verbatim>\<open>MAX(updated_at)\<close>. The groups
  come in the order of their project names before \<^verbatim>\<open>ORDER BY last_updated DESC\<close> sorts
  them.
\<close>

definition project_group :: "mem_row list \<Rightarrow> string \<Rightarrow> string \<times> nat \<times> string option \<times> string" where
  "project_group rows p =
     (let g = filter (\<lambda>r. m_project r = Some p) rows;
          cats = remdups_first (List.map_filter m_category g)
      in (p, length g, (if cats = [] then None else Some (join '','' cats)),
          foldr max (map m_updated_at g) []))"

definition listProjects :: "store \<Rightarrow> (error + ProjectMemoryStats list) \<times> store" where
  "listProjects s =
     (case db s of
        None \<Rightarrow> (Inl NotInitialized, s)
      | Some conn \<Rightarrow>
          if closed conn then (Inl closed_error, s)
          else
            (let names = sort (remdups_first (List.map_filter m_project (memories s)));
                 projects =
                   order_by_desc (\<lambda>(p, n, cats, last_updated). last_updated)
                     (map (project_group (memories s)) names)
             in (Inr (map (\<lambda>(p, n, cats, last_updated).
                             \<lparr>ps_project = p, ps_totalMemories = n,
                              ps_categories =
                                (if truthy cats
                                 then filter (\<lambda>c. c \<noteq> []) (split_on CHR '','' (or_default cats []))
                                 else []),
                              ps_lastUpdated = last_updated\<rparr>)
                        projects),
                 s)))"

definition listProjectFiles :: "string option \<Rightarrow> store \<Rightarrow> (error + string list) \<times> store" where
  "listProjectFiles project s =
     (case db s of
        None \<Rightarrow> (Inl NotInitialized, s)
      | Some conn \<Rightarrow>
          if closed conn then (Inl closed_error, s)
          else
            (Inr (sort (remdups_first
                    (List.map_filter m_category
                       (filter (\<lambda>r. project \<noteq> None \<and> m_project r = project) (memories s))))),
             s))"

text \<open>
  \<^verbatim>\<open>BEGIN TRANSACTION\<close>, \<^verbatim>\<open>COMMIT\<close> and \<^verbatim>\<open>ROLLBACK\<close> on the connection of an
  initialized store. \<^verbatim>\<open>BEGIN\<close> keeps the tables as they are, \<^verbatim>\<open>ROLLBACK\<close> puts
  them back.
\<close>

definition sql_begin :: "connection \<Rightarrow> store \<Rightarrow> error + store" where
  "sql_begin conn s =
     (if closed conn then Inl closed_error
      else
        (case txn conn of
           Some snapshot \<Rightarrow>
             Inl (SqliteError ''SQLITE_ERROR: cannot start a transaction within a transaction'')
         | None \<Rightarrow> Inr (s\<lparr>db := Some (conn\<lparr>txn := Some (memories s, todos s)\<rparr>)\<rparr>)))"

definition sql_commit :: "store \<Rightarrow> store" where
  "sql_commit s = s\<lparr>db := map_option (\<lambda>conn. conn\<lparr>txn := None\<rparr>) (db s)\<rparr>"

definition sql_rollback :: "store \<Rightarrow> store" where
  "sql_rollback s =
     (case db s of
        None \<Rightarrow> s
      | Some conn \<Rightarrow>
          (case txn conn of
             None \<Rightarrow> s
           | Some (ms, ts) \<Rightarrow> s\<lparr>memories := ms, todos := ts, db := Some (conn\<lparr>txn := None\<rparr>)\<rparr>))"

text \<open>
  One element of the \<^verbatim>\<open>memories\<close> array of \<^verbatim>\<open>updateMemoryBank\<close>. The bridge checks
  no element, so \<^verbatim>\<open>content\<close> may be absent; the \<^verbatim>\<open>INSERT\<close> then fails on the
  \<^verbatim>\<open>NOT NULL\<close> column.
\<close>

record bank_memory =
  b_content :: "string option"
  b_importance :: "int option"
  b_tags :: "string list option"

definition bank_row ::
  "runtime \<Rightarrow> string \<times> string \<Rightarrow> string option \<Rightarrow> string option \<Rightarrow> bank_memory \<Rightarrow> string \<Rightarrow> mem_row" where
  "bank_row rt tick project category memory content =
     \<lparr>m_id = fst tick, m_content = content, m_original_content = None,
      m_context = or_default category ''general'',
      m_importance = (case b_importance memory of None \<Rightarrow> 5 | Some i \<Rightarrow> if i = 0 then 5 else i),
      m_timestamp = snd tick, m_source = ''manual'', m_project = project,
      m_category = category, m_tags = map_option (JSON_stringify rt) (b_tags memory),
      m_embedding = None, m_created_at = snd tick, m_updated_at = snd tick\<rparr>"

text \<open>
  The \<^verbatim>\<open>for\<close> loop of \<^verbatim>\<open>updateMemoryBank\<close>. \<open>gen i\<close> is what iteration \<open>i\<close> draws:
  the token of \<^verbatim>\<open>generateId()\<close> and the time of \<^verbatim>\<open>new Date().toISOString()\<close>. The
  loop stops at the first statement that fails and hands back the error with the table as the
  statements before it left it.
\<close>

fun insert_all ::
  "runtime \<Rightarrow> (nat \<Rightarrow> string \<times> string) \<Rightarrow> nat \<Rightarrow> string option \<Rightarrow> string option \<Rightarrow>
   bank_memory list \<Rightarrow> mem_row list \<Rightarrow> error option \<times> mem_row list" where
  "insert_all rt gen i project category [] rows = (None, rows)"
| "insert_all rt gen i project category (memory # rest) rows =
     (case b_content memory of
        None \<Rightarrow>
          (Some (SqliteError ''SQLITE_CONSTRAINT: NOT NULL constraint failed: memories.content''),
           rows)
      | Some content \<Rightarrow>
          (case insert_memory (bank_row rt (gen i) project category memory content) rows of
             Inl e \<Rightarrow> (Some e, rows)
           | Inr rows' \<Rightarrow> insert_all rt gen (Suc i) project category rest rows'))"

definition updateMemoryBank ::
  "runtime \<Rightarrow> (nat \<Rightarrow> string \<times> string) \<Rightarrow> string option \<Rightarrow> string option \<Rightarrow>
   bank_memory list option \<Rightarrow> store \<Rightarrow> (error + unit) \<times> store" where
  "updateMemoryBank rt gen project category batch s =
     (case db s of
        None \<Rightarrow> (Inl NotInitialized, s)
      | Some conn \<Rightarrow>
          (case sql_begin conn s of
             Inl e \<Rightarrow> (Inl e, s)
           | Inr s1 \<Rightarrow>
               (case (case batch of
                        None \<Rightarrow> (Some (TypeError ''memories is not iterable''), memories s1)
                      | Some ms \<Rightarrow> insert_all rt gen 0 project category ms (memories s1)) of
                  (None, rows) \<Rightarrow> (Inr (), sql_commit (s1\<lparr>memories := rows\<rparr>))
                | (Some e, rows) \<Rightarrow> (Inl e, sql_rollback (s1\<lparr>memories := rows\<rparr>)))))"

record MemoryBankExport =
  e_project :: "string option"
  e_category :: "string option"
  e_format :: string
  e_exportedAt :: string
  e_memories :: "StoredMemory list"

text \<open>
  The tags of a row as the read operations hand them out: absent for \<^verbatim>\<open>NULL\<close> and for the
  empty string, else \<^verbatim>\<open>JSON.parse\<close> of the column inside \<^verbatim>\<open>try\<close>, absent when it
  throws.
\<close>

definition parse_tags :: "runtime \<Rightarrow> string option \<Rightarrow> string list option" where
  "parse_tags rt tags = (if truthy tags then JSON_parse rt (or_default tags []) else None)"

definition stored_of_row :: "runtime \<Rightarrow> mem_row \<Rightarrow> StoredMemory" where
  "stored_of_row rt m =
     \<lparr>sm_id = m_id m, sm_content = m_content m, sm_originalContent = m_original_content m,
      sm_context = m_context m, sm_importance = m_importance m, sm_timestamp = m_timestamp m,
      sm_source = m_source m, sm_project = m_project m, sm_category = m_category m,
      sm_tags = parse_tags rt (m_tags m), sm_createdAt = m_created_at m,
      sm_updatedAt = m_updated_at m\<rparr>"

definition exportMemoryBank ::
  "runtime \<Rightarrow> string \<Rightarrow> string option \<Rightarrow> string option \<Rightarrow> string option \<Rightarrow> store \<Rightarrow>
   (error + MemoryBankExport) \<times> store" where
  "exportMemoryBank rt now project category format s =
     (case db s of
        None \<Rightarrow> (Inl NotInitialized, s)
      | Some conn \<Rightarrow>
          if closed conn then (Inl closed_error, s)
          else
            (let rawMemories =
                   order_by_desc m_created_at
                     (filter (\<lambda>r. (if truthy project then m_project r = project else True) \<and>
                                  (if truthy category then m_category r = category else True))
                        (memories s))
             in (Inr \<lparr>e_project = project, e_category = category,
                      e_format = (case format of None \<Rightarrow> ''json'' | Some f \<Rightarrow> f),
                      e_exportedAt = now,
                      e_memories = map (stored_of_row rt) rawMemories\<rparr>,
                 s)))"


subsection \<open>Todos\<close>

record TodoData =
  td_content :: "string option"
  td_status :: "string option"
  td_priority :: "string option"
  td_project :: "string option"
  td_context :: "string option"
  td_tags :: "string list option"
  td_createdAt :: string
  td_updatedAt :: string

text \<open>\<^verbatim>\<open>Partial<TodoData>\<close> as \<^verbatim>\<open>updateTodo\<close> reads it.\<close>

record TodoUpdates =
  u_content :: "string option"
  u_status :: "string option"
  u_priority :: "string option"
  u_project :: "string option"
  u_context :: "string option"
  u_tags :: "string list option"

record StoredTodo =
  st_id :: string
  st_content :: string
  st_status :: string
  st_priority :: string
  st_project :: "string option"
  st_context :: "string option"
  st_tags :: "string list option"
  st_createdAt :: string
  st_updatedAt :: string

record ListTodosArgs =
  l_status :: "string option"
  l_priority :: "string option"
  l_project :: "string option"
  l_context :: "string option"
  l_limit :: "int option"

text \<open>\<^verbatim>\<open>x || null\<close> and \<^verbatim>\<open>x || undefined\<close> on an optional string.\<close>

definition or_null :: "string option \<Rightarrow> string option" where
  "or_null x = (if truthy x then x else None)"

definition addTodo ::
  "runtime \<Rightarrow> clock \<Rightarrow> TodoData \<Rightarrow> store \<Rightarrow> (error + StoredTodo) \<times> store" where
  "addTodo rt ck todoData s =
     (case db s of
        None \<Rightarrow> (Inl NotInitialized, s)
      | Some conn \<Rightarrow>
          (let ident = new_id ck; now = iso_now ck
           in if closed conn then (Inl closed_error, s)
              else
                (case td_content todoData of
                   None \<Rightarrow>
                     (Inl (SqliteError ''SQLITE_CONSTRAINT: NOT NULL constraint failed: todos.content''),
                      s)
                 | Some content \<Rightarrow>
                     (case insert_todo
                             \<lparr>t_id = ident, t_content = content,
                              t_status = or_default (td_status todoData) ''pending'',
                              t_priority = or_default (td_priority todoData) ''medium'',
                              t_project = or_null (td_project todoData),
                              t_context = or_null (td_context todoData),
                              t_tags = map_option (JSON_stringify rt) (td_tags todoData),
                              t_created_at = now, t_updated_at = now\<rparr>
                             (todos s) of
                        Inl e \<Rightarrow> (Inl e, s)
                      | Inr rows \<Rightarrow>
                          (Inr \<lparr>st_id = ident, st_content = content,
                                st_status = or_default (td_status todoData) ''pending'',
                                st_priority = or_default (td_priority todoData) ''medium'',
                                st_project = td_project todoData,
                                st_context = td_context todoData,
                                st_tags = td_tags todoData,
                                st_createdAt = now, st_updatedAt = now\<rparr>,
                           s\<lparr>todos := rows\<rparr>)))))"

text \<open>The object \<^verbatim>\<open>listTodos\<close> and \<^verbatim>\<open>getTodoById\<close> build from a row.\<close>

definition todo_of_row :: "runtime \<Rightarrow> todo_row \<Rightarrow> StoredTodo" where
  "todo_of_row rt t =
     \<lparr>st_id = t_id t, st_content = t_content t, st_status = t_status t,
      st_priority = t_priority t, st_project = or_null (t_project t),
      st_context = or_null (t_context t), st_tags = parse_tags rt (t_tags t),
      st_createdAt = t_created_at t, st_updatedAt = t_updated_at t\<rparr>"

definition listTodos ::
  "runtime \<Rightarrow> ListTodosArgs option \<Rightarrow> store \<Rightarrow> (error + StoredTodo list) \<times> store" where
  "listTodos rt args s =
     (case db s of
        None \<Rightarrow> (Inl NotInitialized, s)
      | Some conn \<Rightarrow>
          (let options = (case args of
                            None \<Rightarrow> \<lparr>l_status = None, l_priority = None, l_project = None,
                                      l_context = None, l_limit = None\<rparr>
                          | Some a \<Rightarrow> a)
           in if closed conn then (Inl closed_error, s)
              else
                (let rows =
                       order_by_desc t_created_at
                         (filter (\<lambda>t. (if truthy (l_status options)
                                        then Some (t_status t) = l_status options else True) \<and>
                                       (if truthy (l_priority options)
                                        then Some (t_priority t) = l_priority options else True) \<and>
                                       (if truthy (l_project options)
                                        then t_project t = l_project options else True) \<and>
                                       (if truthy (l_context options)
                                        then t_context t = l_context options else True))
                            (todos s));
                     rawTodos = (case l_limit options of
                                   None \<Rightarrow> rows
                                 | Some n \<Rightarrow> if n = 0 then rows else sql_limit n rows)
                 in (Inr (map (todo_of_row rt) rawTodos), s))))"

definition getTodoById ::
  "runtime \<Rightarrow> string option \<Rightarrow> store \<Rightarrow> (error + StoredTodo option) \<times> store" where
  "getTodoById rt ident s =
     (case db s of
        None \<Rightarrow> (Inl NotInitialized, s)
      | Some conn \<Rightarrow>
          if closed conn then (Inl closed_error, s)
          else (Inr (map_option (todo_of_row rt) (find (\<lambda>t. Some (t_id t) = ident) (todos s))), s))"

text \<open>
  The \<^verbatim>\<open>SET\<close> clause of \<^verbatim>\<open>updateTodo\<close> on one row: each property of
  \<^verbatim>\<open>updates\<close> that is not \<^verbatim>\<open>undefined\<close> gives an assignment, and
  \<^verbatim>\<open>updated_at\<close> is always assigned.
\<close>

definition patch_todo :: "runtime \<Rightarrow> string \<Rightarrow> TodoUpdates \<Rightarrow> todo_row \<Rightarrow> todo_row" where
  "patch_todo rt now updates t =
     t\<lparr>t_content := (case u_content updates of None \<Rightarrow> t_content t | Some c \<Rightarrow> c),
       t_status := (case u_status updates of None \<Rightarrow> t_status t | Some x \<Rightarrow> x),
       t_priority := (case u_priority updates of None \<Rightarrow> t_priority t | Some x \<Rightarrow> x),
       t_project := (case u_project updates of None \<Rightarrow> t_project t | Some x \<Rightarrow> or_null (Some x)),
       t_context := (case u_context updates of None \<Rightarrow> t_context t | Some x \<Rightarrow> or_null (Some x)),
       t_tags := (case u_tags updates of None \<Rightarrow> t_tags t | Some ts \<Rightarrow> Some (JSON_stringify rt ts)),
       t_updated_at := now\<rparr>"

definition updateTodo ::
  "runtime \<Rightarrow> string \<Rightarrow> string option \<Rightarrow> TodoUpdates \<Rightarrow> store \<Rightarrow>
   (error + StoredTodo option) \<times> store" where
  "updateTodo rt now ident updates s =
     (case db s of
        None \<Rightarrow> (Inl NotInitialized, s)
      | Some conn \<Rightarrow>
          (case getTodoById rt ident s of
             (Inl e, s1) \<Rightarrow> (Inl e, s1)
           | (Inr None, s1) \<Rightarrow> (Inr None, s1)
           | (Inr (Some existing), s1) \<Rightarrow>
               getTodoById rt ident
                 (s1\<lparr>todos := map (\<lambda>t. if Some (t_id t) = ident then patch_todo rt now updates t else t)
                                  (todos s1)\<rparr>)))"

definition deleteTodo :: "string option \<Rightarrow> store \<Rightarrow> (error + bool) \<times> store" where
  "deleteTodo ident s =
     (case db s of
        None \<Rightarrow> (Inl NotInitialized, s)
      | Some conn \<Rightarrow>
          if closed conn then (Inl closed_error, s)
          else
            (let rows = filter (\<lambda>t. Some (t_id t) \<noteq> ident) (todos s);
                 changes = length (todos s) - length rows
             in (Inr (changes > 0), s\<lparr>todos := rows\<rparr>)))"

text \<open>\<^verbatim>\<open>close\<close>: \<^verbatim>\<open>if (db) { await db.close(); }\<close>.\<close>

definition close :: "store \<Rightarrow> (error + unit) \<times> store" where
  "close s =
     (case db s of
        None \<Rightarrow> (Inr (), s)
      | Some conn \<Rightarrow>
          if closed conn then (Inl closed_error, s)
          else (Inr (), s\<lparr>db := Some (conn\<lparr>closed := True\<rparr>)\<rparr>))"


section \<open>The protocol bridge\<close>

subsection \<open>Text building\<close>

text \<open>
  The double quote, the line feed and the non-ASCII marks of the handlers' texts (as UTF-8),
  the decimal text of a number in a template string, and \<^verbatim>\<open>${x}\<close> for an optional
  string, which prints \<^verbatim>\<open>undefined\<close> when it is absent.
\<close>

definition dq :: string where
  "dq = [CHR 0x22]"

definition nl :: string where
  "nl = [CHR 0x0A]"

definition backticks :: string where
  "backticks = [CHR 0x60, CHR 0x60, CHR 0x60]"

definition bullet :: string where
  "bullet = [CHR 0xE2, CHR 0x80, CHR 0xA2]"

definition mark_completed :: string where
  "mark_completed = [CHR 0xE2, CHR 0x9C, CHR 0x85]"

definition mark_in_progress :: string where
  "mark_in_progress = [CHR 0xF0, CHR 0x9F, CHR 0x94, CHR 0x84]"

definition mark_pending :: string where
  "mark_pending = [CHR 0xE2, CHR 0x8F, CHR 0xB3]"

definition mark_high :: string where
  "mark_high = [CHR 0xF0, CHR 0x9F, CHR 0x94, CHR 0xB4]"

definition mark_medium :: string where
  "mark_medium = [CHR 0xF0, CHR 0x9F, CHR 0x9F, CHR 0xA1]"

definition mark_low :: string where
  "mark_low = [CHR 0xF0, CHR 0x9F, CHR 0x9F, CHR 0xA2]"

fun show_nat :: "nat \<Rightarrow> string" where
  "show_nat n =
     (if n < 10 then [''0123456789'' ! n] else show_nat (n div 10) @ [''0123456789'' ! (n mod 10)])"

definition show_int :: "int \<Rightarrow> string" where
  "show_int i = (if i < 0 then ''-'' @ show_nat (nat (- i)) else show_nat (nat i))"

fun str :: "string option \<Rightarrow> string" where
  "str None = ''undefined''"
| "str (Some x) = x"

text \<open>
  \<^verbatim>\<open>s.trim()\<close>, \<^verbatim>\<open>s.toUpperCase()\<close>, \<^verbatim>\<open>s.replace(a, b)\<close> for characters (the first
  occurrence only) and \<^verbatim>\<open>s.replace(/"/g, '""')\<close>.
\<close>

definition trim :: "string \<Rightarrow> string" where
  "trim s = rev (dropWhile is_space (rev (dropWhile is_space s)))"

definition upper_char :: "char \<Rightarrow> char" where
  "upper_char c =
     (case map_of (zip ''abcdefghijklmnopqrstuvwxyz'' ''ABCDEFGHIJKLMNOPQRSTUVWXYZ'') c of
        None \<Rightarrow> c
      | Some u \<Rightarrow> u)"

definition toUpperCase :: "string \<Rightarrow> string" where
  "toUpperCase s = map upper_char s"

fun replace_first :: "char \<Rightarrow> char \<Rightarrow> string \<Rightarrow> string" where
  "replace_first a b [] = []"
| "replace_first a b (c # cs) = (if c = a then b # cs else c # replace_first a b cs)"

definition double_quotes :: "string \<Rightarrow> string" where
  "double_quotes s = concat (map (\<lambda>c. if c = CHR 0x22 then dq @ dq else [c]) s)"

text \<open>\<^verbatim>\<open>xs.map((x, index) => f(x, index))\<close>.\<close>

definition map_index :: "(nat \<Rightarrow> 'a \<Rightarrow> 'b) \<Rightarrow> 'a list \<Rightarrow> 'b list" where
  "map_index f xs = map (\<lambda>(i, x). f i x) (enumerate 0 xs)"

subsection \<open>Requests, responses and collaborators\<close>

text \<open>
  The argument object of a tool call: any subset of the properties the thirteen tools read,
  each of the type its schema declares. A transport hands the object to a handler as it is
  (\<^verbatim>\<open>args as unknown as AddMemoryArgs\<close> converts nothing), so a property a tool
  requires may be absent.
\<close>

record tool_arguments =
  a_content :: "string option"
  a_context :: "string option"
  a_importance :: "int option"
  a_project :: "string option"
  a_category :: "string option"
  a_tags :: "string list option"
  a_query :: "string option"
  a_limit :: "int option"
  a_since :: "string option"
  a_text :: "string option"
  a_id :: "string option"
  a_memories :: "bank_memory list option"
  a_format :: "string option"
  a_status :: "string option"
  a_priority :: "string option"

text \<open>
  What a transport answers: the result envelope
  \<^verbatim>\<open>{content: [{type: 'text', text}]}\<close> with its text, the error envelope
  \<^verbatim>\<open>{code, message}\<close>, or the tool list.
\<close>

datatype 'tool response = Content string | Failure int string | Tools "'tool list"

record ExtractedMemory =
  f_content :: string
  f_context :: "string option"
  f_importance :: "int option"

text \<open>An element of the array the extraction model answered, before it is checked.\<close>

record RawExtracted =
  x_content :: "string option"
  x_context :: "string option"
  x_importance :: "int option"

record RepositoryInfo =
  repoName :: "string option"
  repoTags :: "string list"
  isGitRepo :: bool

text \<open>
  The configuration and the collaborators of the handlers: the enhancement call
  \<^verbatim>\<open>ollama.enhanceMemory\<close> (which answers the content it was given when the model fails),
  the array parsed from the extraction model's answer (\<open>None\<close> when the call or the
  parsing fails), \<^verbatim>\<open>detectRepositoryInfo()\<close>, and the runtime's
  \<^verbatim>\<open>new Date(s)\<close>, \<^verbatim>\<open>new Date(s).toLocaleString()\<close>, \<^verbatim>\<open>x.toFixed(1)\<close> and
  \<^verbatim>\<open>JSON.stringify(exportData, null, 2)\<close>.
\<close>

record services =
  autoExtract :: bool
  similarityThreshold :: rat
  enhanceMemory :: "string option \<Rightarrow> string option \<Rightarrow> string option"
  extraction_answer :: "string option \<Rightarrow> string \<Rightarrow> RawExtracted list option"
  repoInfo :: RepositoryInfo
  new_Date :: "string \<Rightarrow> js_date"
  toLocaleString :: "string \<Rightarrow> string"
  toFixed1 :: "rat \<Rightarrow> string"
  stringify_export :: "MemoryBankExport \<Rightarrow> string"

text \<open>The \<^verbatim>\<open>message\<close> of an error, as \<^verbatim>\<open>(error as Error).message\<close> reads it.\<close>

fun message :: "error \<Rightarrow> string" where
  "message NotInitialized = ''Database not initialized''"
| "message (SqliteError m) = m"
| "message (TypeError m) = m"
| "message (RangeError m) = m"
| "message (McpError code m) = ''MCP error '' @ show_int code @ '': '' @ m"

definition InvalidParams :: int where
  "InvalidParams = - 32602"

definition MethodNotFound :: int where
  "MethodNotFound = - 32601"

definition InternalError :: int where
  "InternalError = - 32603"

text \<open>
  \<^verbatim>\<open>ollama.extractMemories\<close>: the answered array, filtered and cleaned, with the
  importance clamped to 1 to 10; when the model fails, one memory cut from the text if the
  text has more than 20 characters. The fallback reads \<^verbatim>\<open>text.trim()\<close>, which throws on
  an absent text.
\<close>

definition extractMemories ::
  "services \<Rightarrow> string option \<Rightarrow> string \<Rightarrow> error + ExtractedMemory list" where
  "extractMemories sv text ctx =
     (case extraction_answer sv text ctx of
        Some answered \<Rightarrow>
          Inr (map (\<lambda>memory.
                      \<lparr>f_content = trim (str (x_content memory)),
                       f_context = Some (or_default (x_context memory) ctx),
                       f_importance =
                         Some (min (max (case x_importance memory of
                                           None \<Rightarrow> 5
                                         | Some i \<Rightarrow> if i = 0 then 5 else i) 1) 10)\<rparr>)
                 (filter (\<lambda>memory. truthy (x_content memory) \<and>
                                   length (trim (str (x_content memory))) > 0)
                    answered))
      | None \<Rightarrow>
          (case text of
             None \<Rightarrow> Inl (TypeError ''Cannot read properties of undefined'')
           | Some t \<Rightarrow>
               if length (trim t) > 20
               then Inr [\<lparr>f_content = take 200 t @ (if length t > 200 then ''...'' else []),
                          f_context = Some ctx, f_importance = Some 5\<rparr>]
               else Inr []))"

text \<open>\<^verbatim>\<open>enhanceMemoryWithRepoInfo\<close> of utils.ts, on the repository the process runs in.\<close>

definition enhanceMemoryWithRepoInfo :: "RepositoryInfo \<Rightarrow> MemoryData \<Rightarrow> MemoryData" where
  "enhanceMemoryWithRepoInfo info memoryData =
     (let e1 = (if isGitRepo info \<and> length (repoTags info) > 0
                then memoryData\<lparr>d_tags := Some ((case d_tags memoryData of None \<Rightarrow> [] | Some ts \<Rightarrow> ts)
                                                   @ repoTags info)\<rparr>
                else memoryData);
          e2 = (if \<not> truthy (d_project e1) \<and> truthy (repoName info)
                then e1\<lparr>d_project := repoName info\<rparr> else e1)
      in if (if truthy (d_context e2) then d_context e2 = Some ''general'' else True)
         then (if truthy (repoName info)
               then e2\<lparr>d_context := Some (''repo-'' @ replace_first CHR ''/'' CHR ''-'' (str (repoName info)))\<rparr>
               else e2)
         else e2)"

subsection \<open>Handlers of both transports\<close>

text \<open>
  A handler takes the argument object (\<open>None\<close> when the request has none), the store, and
  what the request draws from its environment (\<open>ticks i\<close> is the \<open>i\<close>-th draw of an
  id and the time). It answers the text of its result envelope or the error it throws,
  with the store as it left it. Reading a property of an absent argument object throws a
  \<^verbatim>\<open>TypeError\<close> (the wording of its message is the engine's).
\<close>

definition no_arguments_error :: error where
  "no_arguments_error = TypeError ''Cannot read properties of undefined''"

definition empty_arguments :: tool_arguments where
  "empty_arguments =
     \<lparr>a_content = None, a_context = None, a_importance = None, a_project = None,
      a_category = None, a_tags = None, a_query = None, a_limit = None, a_since = None,
      a_text = None, a_id = None, a_memories = None, a_format = None, a_status = None,
      a_priority = None\<rparr>"

text \<open>The \<^verbatim>\<open>MemoryData\<close> that \<^verbatim>\<open>handleAddMemory\<close> builds, in both files.\<close>

definition add_memory_data :: "services \<Rightarrow> clock \<Rightarrow> tool_arguments \<Rightarrow> MemoryData" where
  "add_memory_data sv ck a =
     \<lparr>d_content = (if autoExtract sv then enhanceMemory sv (a_content a) (a_context a)
                    else a_content a),
      d_originalContent = a_content a,
      d_context = Some (or_default (a_context a) ''general''),
      d_importance = Some (case a_importance a of None \<Rightarrow> 5 | Some i \<Rightarrow> i),
      d_timestamp = iso_now ck, d_source = Some ''manual'', d_project = a_project a,
      d_category = a_category a, d_tags = a_tags a\<rparr>"

definition stdio_handleAddMemory ::
  "services \<Rightarrow> runtime \<Rightarrow> (nat \<Rightarrow> clock) \<Rightarrow> tool_arguments option \<Rightarrow> store \<Rightarrow>
   (error + string) \<times> store" where
  "stdio_handleAddMemory sv rt ticks args s =
     (case args of
        None \<Rightarrow> (Inl no_arguments_error, s)
      | Some a \<Rightarrow>
          (let memoryData = add_memory_data sv (ticks 0) a
           in case addMemory rt (ticks 0) memoryData s of
                (Inl e, s') \<Rightarrow> (Inl e, s')
              | (Inr memory, s') \<Rightarrow>
                  (Inr (''Memory stored successfully with ID: '' @ added_id memory @ nl @
                        ''Content: '' @ str (d_content memoryData)),
                   s')))"

definition http_handleAddMemory ::
  "services \<Rightarrow> runtime \<Rightarrow> (nat \<Rightarrow> clock) \<Rightarrow> tool_arguments option \<Rightarrow> store \<Rightarrow>
   (error + string) \<times> store" where
  "http_handleAddMemory sv rt ticks args s =
     (case args of
        None \<Rightarrow> (Inl no_arguments_error, s)
      | Some a \<Rightarrow>
          (let enhancedContent = d_content (add_memory_data sv (ticks 0) a);
               memoryData = enhanceMemoryWithRepoInfo (repoInfo sv) (add_memory_data sv (ticks 0) a)
           in case addMemory rt (ticks 0) memoryData s of
                (Inl e, s') \<Rightarrow> (Inl e, s')
              | (Inr memory, s') \<Rightarrow>
                  (Inr (''Memory stored successfully with ID: '' @ added_id memory @ nl @
                        ''Content: '' @ str enhancedContent),
                   s')))"

text \<open>The search options both \<^verbatim>\<open>handleSearchMemories\<close> build.\<close>

definition search_options :: "services \<Rightarrow> tool_arguments \<Rightarrow> SearchOptions" where
  "search_options sv a =
     \<lparr>o_limit = Some (case a_limit a of None \<Rightarrow> 5 | Some n \<Rightarrow> n),
      o_context = (if truthy (a_context a) then a_context a else None),
      o_threshold = Some (similarityThreshold sv)\<rparr>"

definition stdio_handleSearchMemories ::
  "services \<Rightarrow> tool_arguments option \<Rightarrow> store \<Rightarrow> (error + string) \<times> store" where
  "stdio_handleSearchMemories sv args s =
     (case args of
        None \<Rightarrow> (Inl no_arguments_error, s)
      | Some a \<Rightarrow>
          (case searchMemories (a_query a) (search_options sv a) s of
             (Inl e, s') \<Rightarrow> (Inl e, s')
           | (Inr found, s') \<Rightarrow>
               if length found = 0
               then (Inr (''No memories found for query: '' @ dq @ str (a_query a) @ dq), s')
               else
                 (Inr (''Found '' @ show_nat (length found) @ '' relevant memories:'' @ nl @ nl @
                       join (nl @ nl)
                         (map (\<lambda>memory. ''['' @ m_timestamp memory @ ''] '' @ m_context memory @
                                 '': '' @ m_content memory @ '' (relevance: '' @
                                 toFixed1 sv (similarity memory * 100) @ ''%)'')
                            found)),
                  s')))"

text \<open>
  The line of one memory in the HTTP bridge's lists. The memory is a row object, whose
  \<^verbatim>\<open>tags\<close> is the column's text and no array, so the text for the tags is empty.
\<close>

definition http_memory_line :: "services \<Rightarrow> nat \<Rightarrow> 'a row_memory_scheme \<Rightarrow> string \<Rightarrow> string" where
  "http_memory_line sv index memory similarityText =
     show_nat (index + 1) @ ''. **'' @ m_content memory @ ''**'' @
     (if truthy (m_project memory) then '' ['' @ str (m_project memory) @ '']'' else []) @
     (if truthy (m_category memory) then '' ('' @ str (m_category memory) @ '')'' else []) @
     similarityText @ nl @
     ''   Context: '' @ m_context memory @ '' | Importance: '' @ show_int (m_importance memory) @
     ''/10 | Created: '' @ toLocaleString sv (createdAt memory)"

definition http_handleSearchMemories ::
  "services \<Rightarrow> tool_arguments option \<Rightarrow> store \<Rightarrow> (error + string) \<times> store" where
  "http_handleSearchMemories sv args s =
     (case args of
        None \<Rightarrow> (Inl no_arguments_error, s)
      | Some a \<Rightarrow>
          (case searchMemories (a_query a) (search_options sv a) s of
             (Inl e, s') \<Rightarrow> (Inl e, s')
           | (Inr found, s') \<Rightarrow>
               if length found = 0
               then (Inr ''No memories found matching your query.'', s')
               else
                 (Inr (''Found '' @ show_nat (length found) @ '' memories:'' @ nl @ nl @
                       join (nl @ nl)
                         (map_index
                            (\<lambda>index memory.
                               http_memory_line sv index memory
                                 (if similarity memory \<noteq> 0
                                  then '' ('' @ toFixed1 sv (similarity memory * 100) @ ''% match)''
                                  else []))
                            found)),
                  s')))"

text \<open>
  \<^verbatim>\<open>handleGetMemories\<close>. The direct transport's handler gives \<^verbatim>\<open>limit\<close> the default
  10 itself; the HTTP bridge's copies \<^verbatim>\<open>limit\<close> only when it is not 0 and leaves the
  default to the store.
\<close>

definition stdio_handleGetMemories ::
  "services \<Rightarrow> runtime \<Rightarrow> tool_arguments option \<Rightarrow> store \<Rightarrow> (error + string) \<times> store" where
  "stdio_handleGetMemories sv rt args s =
     (case args of
        None \<Rightarrow> (Inl no_arguments_error, s)
      | Some a \<Rightarrow>
          (case getMemories rt
                  \<lparr>g_context = (if truthy (a_context a) then a_context a else None),
                   g_limit = Some (case a_limit a of None \<Rightarrow> 10 | Some n \<Rightarrow> n),
                   g_since = (if truthy (a_since a) then Some (new_Date sv (str (a_since a)))
                              else None)\<rparr>
                  s of
             (Inl e, s') \<Rightarrow> (Inl e, s')
           | (Inr found, s') \<Rightarrow>
               if length found = 0
               then (Inr (if truthy (a_context a)
                          then ''No memories found for context: '' @ dq @ str (a_context a) @ dq
                          else ''No memories found''),
                     s')
               else
                 (Inr (''Found '' @ show_nat (length found) @ '' memories:'' @ nl @ nl @
                       join (nl @ nl)
                         (map (\<lambda>memory. ''['' @ m_timestamp memory @ ''] '' @ m_context memory @
                                 '': '' @ m_content memory)
                            found)),
                  s')))"

definition http_handleGetMemories ::
  "services \<Rightarrow> runtime \<Rightarrow> tool_arguments option \<Rightarrow> store \<Rightarrow> (error + string) \<times> store" where
  "http_handleGetMemories sv rt args s =
     (case args of
        None \<Rightarrow> (Inl no_arguments_error, s)
      | Some a \<Rightarrow>
          (case getMemories rt
                  \<lparr>g_context = (if truthy (a_context a) then a_context a else None),
                   g_limit = (case a_limit a of
                                None \<Rightarrow> None
                              | Some n \<Rightarrow> if n = 0 then None else Some n),
                   g_since = (if truthy (a_since a) then Some (new_Date sv (str (a_since a)))
                              else None)\<rparr>
                  s of
             (Inl e, s') \<Rightarrow> (Inl e, s')
           | (Inr found, s') \<Rightarrow>
               if length found = 0
               then (Inr ''No memories found.'', s')
               else
                 (Inr (''Found '' @ show_nat (length found) @ '' memories:'' @ nl @ nl @
                       join (nl @ nl)
                         (map_index (\<lambda>index memory. http_memory_line sv index memory []) found)),
                  s')))"

text \<open>
  \<^verbatim>\<open>handleExtractMemories\<close>, the same text in both files: every extracted fact is stored
  by its own \<^verbatim>\<open>addMemory\<close>; when one of them throws, the memories stored before it stay.
\<close>

fun store_facts ::
  "runtime \<Rightarrow> (nat \<Rightarrow> clock) \<Rightarrow> nat \<Rightarrow> string \<Rightarrow> ExtractedMemory list \<Rightarrow> added list \<Rightarrow> store \<Rightarrow>
   (error + added list) \<times> store" where
  "store_facts rt ticks i ctx [] stored s = (Inr stored, s)"
| "store_facts rt ticks i ctx (extracted # rest) stored s =
     (case addMemory rt (ticks i)
             \<lparr>d_content = Some (f_content extracted), d_originalContent = None,
              d_context = Some (or_default (f_context extracted) ctx),
              d_importance = Some (case f_importance extracted of
                                     None \<Rightarrow> 5
                                   | Some n \<Rightarrow> if n = 0 then 5 else n),
              d_timestamp = iso_now (ticks i), d_source = Some ''auto-extracted'',
              d_project = None, d_category = None, d_tags = None\<rparr>
             s of
        (Inl e, s') \<Rightarrow> (Inl e, s')
      | (Inr memory, s') \<Rightarrow> store_facts rt ticks (Suc i) ctx rest (stored @ [memory]) s')"

definition handleExtractMemories ::
  "services \<Rightarrow> runtime \<Rightarrow> (nat \<Rightarrow> clock) \<Rightarrow> tool_arguments option \<Rightarrow> store \<Rightarrow>
   (error + string) \<times> store" where
  "handleExtractMemories sv rt ticks args s =
     (case args of
        None \<Rightarrow> (Inl no_arguments_error, s)
      | Some a \<Rightarrow>
          (let ctx = (case a_context a of None \<Rightarrow> ''conversation'' | Some c \<Rightarrow> c)
           in case extractMemories sv (a_text a) ctx of
                Inl e \<Rightarrow> (Inl e, s)
              | Inr extractedFacts \<Rightarrow>
                  (case store_facts rt ticks 0 ctx extractedFacts [] s of
                     (Inl e, s') \<Rightarrow> (Inl e, s')
                   | (Inr stored, s') \<Rightarrow>
                       (Inr (''Extracted and stored '' @ show_nat (length stored) @ '' memories:'' @
                             nl @ nl @ join nl (map (\<lambda>m. ''- '' @ added_content m) stored)),
                        s'))))"

definition stdio_handleDeleteMemory ::
  "tool_arguments option \<Rightarrow> store \<Rightarrow> (error + string) \<times> store" where
  "stdio_handleDeleteMemory args s =
     (case args of
        None \<Rightarrow> (Inl no_arguments_error, s)
      | Some a \<Rightarrow>
          (case deleteMemory (a_id a) s of
             (Inl e, s') \<Rightarrow> (Inl e, s')
           | (Inr deleted, s') \<Rightarrow>
               if \<not> deleted
               then (Inr (''Memory with ID '' @ dq @ str (a_id a) @ dq @ '' not found''), s')
               else (Inr (''Memory with ID '' @ dq @ str (a_id a) @ dq @ '' deleted successfully''),
                     s')))"

definition http_handleDeleteMemory ::
  "tool_arguments option \<Rightarrow> store \<Rightarrow> (error + string) \<times> store" where
  "http_handleDeleteMemory args s =
     (case args of
        None \<Rightarrow> (Inl no_arguments_error, s)
      | Some a \<Rightarrow>
          (case deleteMemory (a_id a) s of
             (Inl e, s') \<Rightarrow> (Inl e, s')
           | (Inr deleted, s') \<Rightarrow>
               if \<not> deleted
               then (Inr (''Memory with ID '' @ str (a_id a) @ '' not found.''), s')
               else (Inr (''Memory with ID '' @ str (a_id a) @ '' deleted successfully.''), s')))"

definition stdio_handleListProjects :: "services \<Rightarrow> store \<Rightarrow> (error + string) \<times> store" where
  "stdio_handleListProjects sv s =
     (case listProjects s of
        (Inl e, s') \<Rightarrow> (Inl e, s')
      | (Inr projects, s') \<Rightarrow>
          if length projects = 0
          then (Inr ''No projects with memories found.'', s')
          else
            (Inr (''Found '' @ show_nat (length projects) @ '' projects with memories:'' @ nl @ nl @
                  join (nl @ nl)
                    (map (\<lambda>p. ''**'' @ ps_project p @ ''** ('' @ show_nat (ps_totalMemories p) @
                               '' memories)'' @ nl @
                               ''  Categories: '' @
                               (if length (ps_categories p) > 0 then join '', '' (ps_categories p)
                                else ''None'') @ nl @
                               ''  Last updated: '' @ toLocaleString sv (ps_lastUpdated p))
                       projects)),
             s'))"

definition http_handleListProjects :: "services \<Rightarrow> store \<Rightarrow> (error + string) \<times> store" where
  "http_handleListProjects sv s =
     (case listProjects s of
        (Inl e, s') \<Rightarrow> (Inl e, s')
      | (Inr projects, s') \<Rightarrow>
          if length projects = 0
          then (Inr ''No projects found.'', s')
          else
            (Inr (''Found '' @ show_nat (length projects) @ '' projects:'' @ nl @ nl @
                  join (nl @ nl)
                    (map_index
                       (\<lambda>index p. show_nat (index + 1) @ ''. **'' @ ps_project p @ ''**'' @ nl @
                                   ''   Memories: '' @ show_nat (ps_totalMemories p) @
                                   '' | Categories: '' @
                                   js_or (join '', '' (ps_categories p)) ''None'' @
                                   '' | Last Updated: '' @ toLocaleString sv (ps_lastUpdated p))
                       projects)),
             s'))"

definition stdio_handleListProjectFiles ::
  "tool_arguments option \<Rightarrow> store \<Rightarrow> (error + string) \<times> store" where
  "stdio_handleListProjectFiles args s =
     (case args of
        None \<Rightarrow> (Inl no_arguments_error, s)
      | Some a \<Rightarrow>
          (case listProjectFiles (a_project a) s of
             (Inl e, s') \<Rightarrow> (Inl e, s')
           | (Inr categories, s') \<Rightarrow>
               if length categories = 0
               then (Inr (''No memory categories found for project '' @ dq @ str (a_project a) @
                          dq @ ''.''),
                     s')
               else
                 (Inr (''Memory categories for project '' @ dq @ str (a_project a) @ dq @ '':'' @
                       nl @ nl @ join nl (map (\<lambda>c. bullet @ '' '' @ c) categories)),
                  s')))"

definition http_handleListProjectFiles ::
  "tool_arguments option \<Rightarrow> store \<Rightarrow> (error + string) \<times> store" where
  "http_handleListProjectFiles args s =
     (case args of
        None \<Rightarrow> (Inl no_arguments_error, s)
      | Some a \<Rightarrow>
          (case listProjectFiles (a_project a) s of
             (Inl e, s') \<Rightarrow> (Inl e, s')
           | (Inr files, s') \<Rightarrow>
               if length files = 0
               then (Inr (''No categories found for project: '' @ str (a_project a)), s')
               else
                 (Inr (''Categories in project '' @ dq @ str (a_project a) @ dq @ '':'' @ nl @ nl @
                       join nl (map_index (\<lambda>index file. show_nat (index + 1) @ ''. '' @ file) files)),
                  s')))"

text \<open>
  \<^verbatim>\<open>handleMemoryBankUpdate\<close>. The text reads \<^verbatim>\<open>memories.length\<close>; an absent
  \<^verbatim>\<open>memories\<close> has made \<^verbatim>\<open>updateMemoryBank\<close> throw before.
\<close>

definition bank_ticks :: "(nat \<Rightarrow> clock) \<Rightarrow> nat \<Rightarrow> string \<times> string" where
  "bank_ticks ticks i = (new_id (ticks i), iso_now (ticks i))"

definition stdio_handleMemoryBankUpdate ::
  "runtime \<Rightarrow> (nat \<Rightarrow> clock) \<Rightarrow> tool_arguments option \<Rightarrow> store \<Rightarrow> (error + string) \<times> store" where
  "stdio_handleMemoryBankUpdate rt ticks args s =
     (case args of
        None \<Rightarrow> (Inl no_arguments_error, s)
      | Some a \<Rightarrow>
          (case updateMemoryBank rt (bank_ticks ticks) (a_project a) (a_category a) (a_memories a) s of
             (Inl e, s') \<Rightarrow> (Inl e, s')
           | (Inr u, s') \<Rightarrow>
               (case a_memories a of
                  None \<Rightarrow> (Inl no_arguments_error, s')
                | Some ms \<Rightarrow>
                    (Inr (''Successfully updated memory bank for project '' @ dq @
                          str (a_project a) @ dq @
                          (if truthy (a_category a)
                           then '' in category '' @ dq @ str (a_category a) @ dq else []) @
                          '' with '' @ show_nat (length ms) @ '' memories.''),
                     s'))))"

definition http_handleMemoryBankUpdate ::
  "runtime \<Rightarrow> (nat \<Rightarrow> clock) \<Rightarrow> tool_arguments option \<Rightarrow> store \<Rightarrow> (error + string) \<times> store" where
  "http_handleMemoryBankUpdate rt ticks args s =
     (case args of
        None \<Rightarrow> (Inl no_arguments_error, s)
      | Some a \<Rightarrow>
          (case updateMemoryBank rt (bank_ticks ticks) (a_project a) (a_category a) (a_memories a) s of
             (Inl e, s') \<Rightarrow> (Inl e, s')
           | (Inr u, s') \<Rightarrow>
               (case a_memories a of
                  None \<Rightarrow> (Inl no_arguments_error, s')
                | Some ms \<Rightarrow>
                    (Inr (''Successfully updated memory bank for project '' @ dq @
                          str (a_project a) @ dq @ '' with '' @ show_nat (length ms) @
                          '' memories.''),
                     s'))))"

text \<open>The export formats of the direct transport: \<^verbatim>\<open>formatAsMarkdown\<close>, \<^verbatim>\<open>formatAsCSV\<close>.\<close>

definition formatAsMarkdown :: "services \<Rightarrow> MemoryBankExport \<Rightarrow> string" where
  "formatAsMarkdown sv exportData =
     ''# Memory Bank Export'' @ nl @ nl @
     (if truthy (e_project exportData) then ''**Project:** '' @ str (e_project exportData) @ nl
      else []) @
     (if truthy (e_category exportData) then ''**Category:** '' @ str (e_category exportData) @ nl
      else []) @
     ''**Exported:** '' @ toLocaleString sv (e_exportedAt exportData) @ nl @
     ''**Total Memories:** '' @ show_nat (length (e_memories exportData)) @ nl @ nl @
     concat
       (map_index
          (\<lambda>index memory.
             ''## Memory '' @ show_nat (index + 1) @ nl @ nl @
             ''**Content:** '' @ sm_content memory @ nl @ nl @
             (if truthy (sm_project memory) then ''**Project:** '' @ str (sm_project memory) @ nl
              else []) @
             (if truthy (sm_category memory) then ''**Category:** '' @ str (sm_category memory) @ nl
              else []) @
             ''**Context:** '' @ sm_context memory @ nl @
             ''**Importance:** '' @ show_int (sm_importance memory) @ ''/10'' @ nl @
             (case sm_tags memory of
                None \<Rightarrow> []
              | Some ts \<Rightarrow> if length ts > 0 then ''**Tags:** '' @ join '', '' ts @ nl else []) @
             ''**Created:** '' @ toLocaleString sv (sm_createdAt memory) @ nl @ nl @
             ''---'' @ nl @ nl)
          (e_memories exportData))"

definition formatAsCSV :: "MemoryBankExport \<Rightarrow> string" where
  "formatAsCSV exportData =
     join nl
       (join '','' [''ID'', ''Content'', ''Project'', ''Category'', ''Context'', ''Importance'',
                   ''Tags'', ''Source'', ''Created'', ''Updated'']
        # map (\<lambda>memory.
                 join '',''
                   [sm_id memory, dq @ double_quotes (sm_content memory) @ dq,
                    or_default (sm_project memory) [], or_default (sm_category memory) [],
                    sm_context memory, show_int (sm_importance memory),
                    (case sm_tags memory of None \<Rightarrow> [] | Some ts \<Rightarrow> dq @ join '', '' ts @ dq),
                    sm_source memory, sm_createdAt memory, sm_updatedAt memory])
            (e_memories exportData))"

text \<open>The filter text and the result text of both \<^verbatim>\<open>handleExportMemoryBank\<close>.\<close>

definition export_text :: "tool_arguments \<Rightarrow> nat \<Rightarrow> string \<Rightarrow> string \<Rightarrow> string" where
  "export_text a n fmt formattedContent =
     (let filterText =
            (if truthy (a_project a) then [''project: '' @ str (a_project a)] else []) @
            (if truthy (a_category a) then [''category: '' @ str (a_category a)] else []);
          filterStr = (if length filterText > 0 then '' ('' @ join '', '' filterText @ '')'' else [])
      in ''Exported '' @ show_nat n @ '' memories'' @ filterStr @ '' in '' @ toUpperCase fmt @
         '' format:'' @ nl @ nl @ backticks @ fmt @ nl @ formattedContent @ nl @ backticks)"

definition stdio_handleExportMemoryBank ::
  "services \<Rightarrow> runtime \<Rightarrow> (nat \<Rightarrow> clock) \<Rightarrow> tool_arguments option \<Rightarrow> store \<Rightarrow>
   (error + string) \<times> store" where
  "stdio_handleExportMemoryBank sv rt ticks args s =
     (case args of
        None \<Rightarrow> (Inl no_arguments_error, s)
      | Some a \<Rightarrow>
          (case exportMemoryBank rt (iso_now (ticks 0)) (a_project a) (a_category a) (a_format a) s of
             (Inl e, s') \<Rightarrow> (Inl e, s')
           | (Inr exportData, s') \<Rightarrow>
               (let formattedContent =
                      (if a_format a = Some ''markdown'' then formatAsMarkdown sv exportData
                       else if a_format a = Some ''csv'' then formatAsCSV exportData
                       else stringify_export sv exportData)
                in case a_format a of
                     None \<Rightarrow> (Inl no_arguments_error, s')
                   | Some fmt \<Rightarrow>
                       (Inr (export_text a (length (e_memories exportData)) fmt formattedContent),
                        s'))))"

definition http_handleExportMemoryBank ::
  "services \<Rightarrow> runtime \<Rightarrow> (nat \<Rightarrow> clock) \<Rightarrow> tool_arguments option \<Rightarrow> store \<Rightarrow>
   (error + string) \<times> store" where
  "http_handleExportMemoryBank sv rt ticks args s =
     (case args of
        None \<Rightarrow> (Inl no_arguments_error, s)
      | Some a \<Rightarrow>
          (let fmt = (case a_format a of None \<Rightarrow> ''json'' | Some f \<Rightarrow> f)
           in case exportMemoryBank rt (iso_now (ticks 0)) (a_project a) (a_category a) (Some fmt) s of
                (Inl e, s') \<Rightarrow> (Inl e, s')
              | (Inr exportData, s') \<Rightarrow>
                  (let formattedContent =
                         (if fmt = ''markdown''
                          then ''# Memory Bank Export'' @ nl @ nl @
                               join nl
                                 (map (\<lambda>m. ''## '' @ sm_content m @ nl @ nl @
                                            ''**Context:** '' @ sm_context m @ nl @
                                            ''**Importance:** '' @ show_int (sm_importance m) @
                                            ''/10'' @ nl @
                                            ''**Created:** '' @ toLocaleString sv (sm_createdAt m) @
                                            nl @ nl @ ''---'' @ nl)
                                    (e_memories exportData))
                          else if fmt = ''csv''
                          then join nl
                                 (''ID,Content,Context,Importance,Created''
                                  # map (\<lambda>m. sm_id m @ '','' @ dq @ double_quotes (sm_content m) @
                                               dq @ '','' @ sm_context m @ '','' @
                                               show_int (sm_importance m) @ '','' @ sm_createdAt m)
                                      (e_memories exportData))
                          else stringify_export sv exportData)
                   in (Inr (export_text a (length (e_memories exportData)) fmt formattedContent),
                       s'))))"

text \<open>The todo handlers, the same in both files.\<close>

definition handleAddTodo ::
  "runtime \<Rightarrow> (nat \<Rightarrow> clock) \<Rightarrow> tool_arguments option \<Rightarrow> store \<Rightarrow> (error + string) \<times> store" where
  "handleAddTodo rt ticks args s =
     (case args of
        None \<Rightarrow> (Inl no_arguments_error, s)
      | Some a \<Rightarrow>
          (case addTodo rt (ticks 0)
                  \<lparr>td_content = a_content a,
                   td_status = Some (or_default (a_status a) ''pending''),
                   td_priority = Some (or_default (a_priority a) ''medium''),
                   td_project = a_project a, td_context = a_context a, td_tags = a_tags a,
                   td_createdAt = iso_now (ticks 0), td_updatedAt = iso_now (ticks 0)\<rparr>
                  s of
             (Inl e, s') \<Rightarrow> (Inl e, s')
           | (Inr todo, s') \<Rightarrow>
               (Inr (''Todo added successfully with ID: '' @ st_id todo @ nl @
                     ''Content: '' @ st_content todo @ nl @
                     ''Status: '' @ st_status todo @ nl @
                     ''Priority: '' @ st_priority todo),
                s')))"

definition list_todos_args :: "tool_arguments \<Rightarrow> ListTodosArgs" where
  "list_todos_args a =
     \<lparr>l_status = a_status a, l_priority = a_priority a, l_project = a_project a,
      l_context = a_context a, l_limit = a_limit a\<rparr>"

definition handleListTodos ::
  "services \<Rightarrow> runtime \<Rightarrow> tool_arguments option \<Rightarrow> store \<Rightarrow> (error + string) \<times> store" where
  "handleListTodos sv rt args s =
     (case listTodos rt (map_option list_todos_args args) s of
        (Inl e, s') \<Rightarrow> (Inl e, s')
      | (Inr found, s') \<Rightarrow>
          if length found = 0
          then (Inr ''No todos found matching the criteria.'', s')
          else
            (Inr (''Found '' @ show_nat (length found) @ '' todos:'' @ nl @ nl @
                  join (nl @ nl)
                    (map_index
                       (\<lambda>index todo.
                          show_nat (index + 1) @ ''. '' @
                          (if st_status todo = ''completed'' then mark_completed
                           else if st_status todo = ''in_progress'' then mark_in_progress
                           else mark_pending) @ '' '' @
                          (if st_priority todo = ''high'' then mark_high
                           else if st_priority todo = ''medium'' then mark_medium
                           else mark_low) @ '' '' @
                          st_content todo @
                          (if truthy (st_project todo) then '' ['' @ str (st_project todo) @ '']''
                           else []) @
                          (if truthy (st_context todo) then '' ('' @ str (st_context todo) @ '')''
                           else []) @
                          (case st_tags todo of
                             None \<Rightarrow> []
                           | Some ts \<Rightarrow> if length ts > 0 then '' #'' @ join '' #'' ts else []) @
                          nl @ ''   ID: '' @ st_id todo @ '' | Created: '' @
                          toLocaleString sv (st_createdAt todo))
                       found)),
             s'))"

definition handleUpdateTodo ::
  "runtime \<Rightarrow> (nat \<Rightarrow> clock) \<Rightarrow> tool_arguments option \<Rightarrow> store \<Rightarrow> (error + string) \<times> store" where
  "handleUpdateTodo rt ticks args s =
     (case args of
        None \<Rightarrow> (Inl no_arguments_error, s)
      | Some a \<Rightarrow>
          (case updateTodo rt (iso_now (ticks 0)) (a_id a)
                  \<lparr>u_content = a_content a, u_status = a_status a, u_priority = a_priority a,
                   u_project = a_project a, u_context = a_context a, u_tags = a_tags a\<rparr>
                  s of
             (Inl e, s') \<Rightarrow> (Inl e, s')
           | (Inr None, s') \<Rightarrow> (Inr (''Todo with ID '' @ str (a_id a) @ '' not found.''), s')
           | (Inr (Some updatedTodo), s') \<Rightarrow>
               (Inr (''Todo updated successfully:'' @ nl @
                     ''ID: '' @ st_id updatedTodo @ nl @
                     ''Content: '' @ st_content updatedTodo @ nl @
                     ''Status: '' @ st_status updatedTodo @ nl @
                     ''Priority: '' @ st_priority updatedTodo),
                s')))"

definition handleDeleteTodo ::
  "tool_arguments option \<Rightarrow> store \<Rightarrow> (error + string) \<times> store" where
  "handleDeleteTodo args s =
     (case args of
        None \<Rightarrow> (Inl no_arguments_error, s)
      | Some a \<Rightarrow>
          (case deleteTodo (a_id a) s of
             (Inl e, s') \<Rightarrow> (Inl e, s')
           | (Inr deleted, s') \<Rightarrow>
               if \<not> deleted
               then (Inr (''Todo with ID '' @ str (a_id a) @ '' not found.''), s')
               else (Inr (''Todo with ID '' @ str (a_id a) @ '' deleted successfully.''), s')))"

subsection \<open>The tool lists\<close>

text \<open>
  A JSON schema as the tool lists use it: type, description, properties, required
  properties, the schema of an array's items, enumerated values, minimum and maximum.
\<close>

datatype schema =
  Schema (schema_type: string) (schema_description: "string option")
    (schema_properties: "(string \<times> schema) list") (schema_required: "string list")
    (schema_items: "schema option") (schema_enum: "string list option")
    (schema_minimum: "int option") (schema_maximum: "int option")

definition string_property :: "string \<Rightarrow> schema" where
  "string_property d = Schema ''string'' (Some d) [] [] None None None None"

definition string_item :: schema where
  "string_item = Schema ''string'' None [] [] None None None None"

definition enum_property :: "string \<Rightarrow> string list \<Rightarrow> schema" where
  "enum_property d values = Schema ''string'' (Some d) [] [] None (Some values) None None"

definition number_property :: "string \<Rightarrow> int \<Rightarrow> int \<Rightarrow> schema" where
  "number_property d lo hi = Schema ''number'' (Some d) [] [] None None (Some lo) (Some hi)"

definition array_property :: "string \<Rightarrow> schema \<Rightarrow> schema" where
  "array_property d items = Schema ''array'' (Some d) [] [] (Some items) None None None"

definition object_schema :: "(string \<times> schema) list \<Rightarrow> string list \<Rightarrow> schema" where
  "object_schema properties required = Schema ''object'' None properties required None None None None"

record tool =
  tool_name :: string
  tool_description :: string
  inputSchema :: schema

text \<open>The tool list of the direct transport (\<^verbatim>\<open>ListToolsRequestSchema\<close> handler).\<close>

definition stdio_tools :: "tool list" where
  "stdio_tools =
     [\<lparr>tool_name = ''add_memory'',
       tool_description = ''Store a new memory or fact for future reference'',
       inputSchema =
         object_schema
           [(''content'', string_property
                ''The content or fact to remember''),
            (''context'', string_property
                ''Optional context about this memory (project, topic, etc.)''),
            (''importance'', number_property
                ''Importance level from 1-10 (optional, default: 5)'' 1 10),
            (''project'', string_property
                ''Optional project name for organization''),
            (''category'', string_property
                ''Optional category for organizing memories within a project''),
            (''tags'', array_property
                ''Optional tags for categorization''
                (string_item))]
           [''content'']\<rparr>,
      \<lparr>tool_name = ''search_memories'',
       tool_description = ''Search for relevant memories based on query'',
       inputSchema =
         object_schema
           [(''query'', string_property
                ''What to search for in memories''),
            (''limit'', number_property
                ''Maximum number of memories to return (default: 5)'' 1 20),
            (''context'', string_property
                ''Optional context to filter memories (project, topic, etc.)'')]
           [''query'']\<rparr>,
      \<lparr>tool_name = ''get_memories'',
       tool_description = ''Get recent memories or all memories for a context'',
       inputSchema =
         object_schema
           [(''context'', string_property
                ''Optional context to filter memories''),
            (''limit'', number_property
                ''Maximum number of memories to return (default: 10)'' 1 50),
            (''since'', string_property
                ''ISO date string to get memories since this date'')]
           []\<rparr>,
      \<lparr>tool_name = ''extract_memories'',
       tool_description = ''Extract and store important facts from a conversation or text'',
       inputSchema =
         object_schema
           [(''text'', string_property
                ''The text to extract memories from''),
            (''context'', string_property
                ''Context about this text (project, meeting, etc.)'')]
           [''text'']\<rparr>,
      \<lparr>tool_name = ''delete_memory'',
       tool_description = ''Delete a specific memory by ID'',
       inputSchema =
         object_schema
           [(''id'', string_property
                ''The ID of the memory to delete'')]
           [''id'']\<rparr>,
      \<lparr>tool_name = ''list_projects'',
       tool_description = ''Show all projects with memories'',
       inputSchema =
         object_schema
           []
           []\<rparr>,
      \<lparr>tool_name = ''list_project_files'',
       tool_description = ''Show memory categories for a project'',
       inputSchema =
         object_schema
           [(''project'', string_property
                ''The project name to list categories for'')]
           [''project'']\<rparr>,
      \<lparr>tool_name = ''memory_bank_update'',
       tool_description = ''Structured updates to project memories'',
       inputSchema =
         object_schema
           [(''project'', string_property
                ''The project name''),
            (''category'', string_property
                ''Optional category for organizing memories''),
            (''memories'', array_property
                ''Array of memories to add''
                (object_schema
                   [(''content'', string_property
                        ''The memory content''),
                    (''importance'', number_property
                        ''Importance level from 1-10 (default: 5)'' 1 10),
                    (''tags'', array_property
                        ''Optional tags for categorization''
                        (string_item))]
                   [''content'']))]
           [''project'', ''memories'']\<rparr>,
      \<lparr>tool_name = ''export_memory_bank'',
       tool_description = ''Export memories in different formats'',
       inputSchema =
         object_schema
           [(''project'', string_property
                ''Optional project name to filter exports''),
            (''category'', string_property
                ''Optional category to filter exports''),
            (''format'', enum_property
                ''Export format''
                [''json'', ''markdown'', ''csv''])]
           [''format'']\<rparr>,
      \<lparr>tool_name = ''add_todo'',
       tool_description = ''Add a new todo item'',
       inputSchema =
         object_schema
           [(''content'', string_property
                ''The todo content''),
            (''status'', enum_property
                ''Todo status''
                [''pending'', ''in_progress'', ''completed'']),
            (''priority'', enum_property
                ''Todo priority''
                [''low'', ''medium'', ''high'']),
            (''project'', string_property
                ''Optional project name''),
            (''context'', string_property
                ''Optional context''),
            (''tags'', array_property
                ''Optional tags''
                (string_item))]
           [''content'']\<rparr>,
      \<lparr>tool_name = ''list_todos'',
       tool_description = ''List todos with optional filters'',
       inputSchema =
         object_schema
           [(''status'', enum_property
                ''Filter by status''
                [''pending'', ''in_progress'', ''completed'']),
            (''priority'', enum_property
                ''Filter by priority''
                [''low'', ''medium'', ''high'']),
            (''project'', string_property
                ''Filter by project''),
            (''context'', string_property
                ''Filter by context''),
            (''limit'', number_property
                ''Maximum number of todos to return'' 1 50)]
           []\<rparr>,
      \<lparr>tool_name = ''update_todo'',
       tool_description = ''Update an existing todo'',
       inputSchema =
         object_schema
           [(''id'', string_property
                ''Todo ID''),
            (''content'', string_property
                ''Updated content''),
            (''status'', enum_property
                ''Updated status''
                [''pending'', ''in_progress'', ''completed'']),
            (''priority'', enum_property
                ''Updated priority''
                [''low'', ''medium'', ''high'']),
            (''project'', string_property
                ''Updated project''),
            (''context'', string_property
                ''Updated context''),
            (''tags'', array_property
                ''Updated tags''
                (string_item))]
           [''id'']\<rparr>,
      \<lparr>tool_name = ''delete_todo'',
       tool_description = ''Delete a todo'',
       inputSchema =
         object_schema
           [(''id'', string_property
                ''Todo ID to delete'')]
           [''id'']\<rparr>]"

text \<open>The tool list of the HTTP bridge (\<^verbatim>\<open>const tools\<close> of http-server.ts).\<close>

definition http_tools :: "tool list" where
  "http_tools =
     [\<lparr>tool_name = ''add_memory'',
       tool_description = ''Store a new memory or fact for future reference'',
       inputSchema =
         object_schema
           [(''content'', string_property
                ''The content to remember''),
            (''context'', string_property
                ''Optional context about this memory''),
            (''importance'', number_property
                ''Importance level from 1-10'' 1 10),
            (''project'', string_property
                ''Optional project name for organization''),
            (''category'', string_property
                ''Optional category for organizing memories within a project''),
            (''tags'', array_property
                ''Optional tags for categorization''
                (string_item))]
           [''content'']\<rparr>,
      \<lparr>tool_name = ''search_memories'',
       tool_description = ''Search for relevant memories based on query'',
       inputSchema =
         object_schema
           [(''query'', string_property
                ''What to search for in memories''),
            (''limit'', number_property
                ''Maximum number of memories to return (default: 5)'' 1 20),
            (''context'', string_property
                ''Optional context to filter memories'')]
           [''query'']\<rparr>,
      \<lparr>tool_name = ''get_memories'',
       tool_description = ''Get recent memories or all memories for a context'',
       inputSchema =
         object_schema
           [(''context'', string_property
                ''Optional context to filter memories''),
            (''limit'', number_property
                ''Maximum number of memories to return'' 1 50),
            (''since'', string_property
                ''ISO date string to get memories since this date'')]
           []\<rparr>,
      \<lparr>tool_name = ''extract_memories'',
       tool_description = ''Extract and store important facts from conversation/text'',
       inputSchema =
         object_schema
           [(''text'', string_property
                ''The text to extract memories from''),
            (''context'', string_property
                ''Context about this text'')]
           [''text'']\<rparr>,
      \<lparr>tool_name = ''delete_memory'',
       tool_description = ''Delete a specific memory by ID'',
       inputSchema =
         object_schema
           [(''id'', string_property
                ''The ID of the memory to delete'')]
           [''id'']\<rparr>,
      \<lparr>tool_name = ''list_projects'',
       tool_description = ''Show all projects with memories'',
       inputSchema =
         object_schema
           []
           []\<rparr>,
      \<lparr>tool_name = ''list_project_files'',
       tool_description = ''Show memory categories for a project'',
       inputSchema =
         object_schema
           [(''project'', string_property
                ''The project name to list categories for'')]
           [''project'']\<rparr>,
      \<lparr>tool_name = ''memory_bank_update'',
       tool_description = ''Structured updates to project memories'',
       inputSchema =
         object_schema
           [(''project'', string_property
                ''The project name''),
            (''category'', string_property
                ''Optional category for organizing memories''),
            (''memories'', array_property
                ''Array of memories to add''
                (object_schema
                   [(''content'', string_property
                        ''The memory content''),
                    (''importance'', number_property
                        ''Importance level from 1-10'' 1 10),
                    (''tags'', array_property
                        ''Optional tags for categorization''
                        (string_item))]
                   [''content'']))]
           [''project'', ''memories'']\<rparr>,
      \<lparr>tool_name = ''export_memory_bank'',
       tool_description = ''Export memories in different formats'',
       inputSchema =
         object_schema
           [(''project'', string_property
                ''Optional project name to filter exports''),
            (''category'', string_property
                ''Optional category to filter exports''),
            (''format'', enum_property
                ''Export format''
                [''json'', ''markdown'', ''csv''])]
           [''format'']\<rparr>,
      \<lparr>tool_name = ''add_todo'',
       tool_description = ''Add a new todo item'',
       inputSchema =
         object_schema
           [(''content'', string_property
                ''The todo content''),
            (''status'', enum_property
                ''Todo status''
                [''pending'', ''in_progress'', ''completed'']),
            (''priority'', enum_property
                ''Todo priority''
                [''low'', ''medium'', ''high'']),
            (''project'', string_property
                ''Optional project name''),
            (''context'', string_property
                ''Optional context''),
            (''tags'', array_property
                ''Optional tags''
                (string_item))]
           [''content'']\<rparr>,
      \<lparr>tool_name = ''list_todos'',
       tool_description = ''List todos with optional filters'',
       inputSchema =
         object_schema
           [(''status'', enum_property
                ''Filter by status''
                [''pending'', ''in_progress'', ''completed'']),
            (''priority'', enum_property
                ''Filter by priority''
                [''low'', ''medium'', ''high'']),
            (''project'', string_property
                ''Filter by project''),
            (''context'', string_property
                ''Filter by context''),
            (''limit'', number_property
                ''Maximum number of todos to return'' 1 50)]
           []\<rparr>,
      \<lparr>tool_name = ''update_todo'',
       tool_description = ''Update an existing todo'',
       inputSchema =
         object_schema
           [(''id'', string_property
                ''Todo ID''),
            (''content'', string_property
                ''Updated content''),
            (''status'', enum_property
                ''Updated status''
                [''pending'', ''in_progress'', ''completed'']),
            (''priority'', enum_property
                ''Updated priority''
                [''low'', ''medium'', ''high'']),
            (''project'', string_property
                ''Updated project''),
            (''context'', string_property
                ''Updated context''),
            (''tags'', array_property
                ''Updated tags''
                (string_item))]
           [''id'']\<rparr>,
      \<lparr>tool_name = ''delete_todo'',
       tool_description = ''Delete a todo'',
       inputSchema =
         object_schema
           [(''id'', string_property
                ''Todo ID to delete'')]
           [''id'']\<rparr>]"

text \<open>
  The argument shape a tool advertises: its name and its schema without the descriptions,
  which are prose for the reader of the list.
\<close>

primrec undescribed :: "schema \<Rightarrow> schema" where
  "undescribed (Schema t d properties required items enum lo hi) =
     Schema t None (map (map_prod id undescribed) properties) required
       (map_option undescribed items) enum lo hi"

definition tool_shape :: "tool \<Rightarrow> string \<times> schema" where
  "tool_shape t = (tool_name t, undescribed (inputSchema t))"

subsection \<open>Dispatch\<close>

text \<open>
  The direct transport: the handler of \<^verbatim>\<open>CallToolRequestSchema\<close>. \<open>missing\<close> is the
  check \<^verbatim>\<open>!args || typeof args !== 'object' || !('p' in args)\<close> with the
  \<^verbatim>\<open>McpError\<close> it throws. Every error thrown inside the \<^verbatim>\<open>try\<close>, the errors of the
  checks and of the unknown name included, is caught and thrown again as an internal error
  that quotes its message.
\<close>

definition missing :: "tool_arguments option \<Rightarrow> (tool_arguments \<Rightarrow> bool) \<Rightarrow> string \<Rightarrow> error option" where
  "missing args present what =
     (case args of
        None \<Rightarrow> Some (McpError InvalidParams what)
      | Some a \<Rightarrow> if present a then None else Some (McpError InvalidParams what))"

definition checked ::
  "error option \<Rightarrow> store \<Rightarrow> ((error + string) \<times> store) \<Rightarrow> (error + string) \<times> store" where
  "checked failure s run = (case failure of Some e \<Rightarrow> (Inl e, s) | None \<Rightarrow> run)"

definition or_empty :: "tool_arguments option \<Rightarrow> tool_arguments option" where
  "or_empty args = Some (case args of None \<Rightarrow> empty_arguments | Some a \<Rightarrow> a)"

definition stdio_switch ::
  "services \<Rightarrow> runtime \<Rightarrow> (nat \<Rightarrow> clock) \<Rightarrow> string \<Rightarrow> tool_arguments option \<Rightarrow> store \<Rightarrow>
   (error + string) \<times> store" where
  "stdio_switch sv rt ticks name args s =
     (if name = ''add_memory''
      then checked (missing args (\<lambda>a. a_content a \<noteq> None) ''Missing required parameter: content'') s
             (stdio_handleAddMemory sv rt ticks args s)
      else if name = ''search_memories''
      then checked (missing args (\<lambda>a. a_query a \<noteq> None) ''Missing required parameter: query'') s
             (stdio_handleSearchMemories sv args s)
      else if name = ''get_memories''
      then stdio_handleGetMemories sv rt (or_empty args) s
      else if name = ''extract_memories''
      then checked (missing args (\<lambda>a. a_text a \<noteq> None) ''Missing required parameter: text'') s
             (handleExtractMemories sv rt ticks args s)
      else if name = ''delete_memory''
      then checked (missing args (\<lambda>a. a_id a \<noteq> None) ''Missing required parameter: id'') s
             (stdio_handleDeleteMemory args s)
      else if name = ''list_projects''
      then stdio_handleListProjects sv s
      else if name = ''list_project_files''
      then checked (missing args (\<lambda>a. a_project a \<noteq> None) ''Missing required parameter: project'') s
             (stdio_handleListProjectFiles args s)
      else if name = ''memory_bank_update''
      then checked (missing args (\<lambda>a. a_project a \<noteq> None \<and> a_memories a \<noteq> None)
                      ''Missing required parameters: project, memories'') s
             (stdio_handleMemoryBankUpdate rt ticks args s)
      else if name = ''export_memory_bank''
      then checked (missing args (\<lambda>a. a_format a \<noteq> None) ''Missing required parameter: format'') s
             (stdio_handleExportMemoryBank sv rt ticks args s)
      else if name = ''add_todo''
      then checked (missing args (\<lambda>a. a_content a \<noteq> None) ''Missing required parameter: content'') s
             (handleAddTodo rt ticks args s)
      else if name = ''list_todos''
      then handleListTodos sv rt (or_empty args) s
      else if name = ''update_todo''
      then checked (missing args (\<lambda>a. a_id a \<noteq> None) ''Missing required parameter: id'') s
             (handleUpdateTodo rt ticks args s)
      else if name = ''delete_todo''
      then checked (missing args (\<lambda>a. a_id a \<noteq> None) ''Missing required parameter: id'') s
             (handleDeleteTodo args s)
      else (Inl (McpError MethodNotFound (''Unknown tool: '' @ name)), s))"

definition stdio_call_tool ::
  "services \<Rightarrow> runtime \<Rightarrow> (nat \<Rightarrow> clock) \<Rightarrow> string \<Rightarrow> tool_arguments option \<Rightarrow> store \<Rightarrow>
   tool response \<times> store" where
  "stdio_call_tool sv rt ticks name args s =
     (case stdio_switch sv rt ticks name args s of
        (Inr text, s') \<Rightarrow> (Content text, s')
      | (Inl e, s') \<Rightarrow>
          (Failure InternalError
             (message (McpError InternalError
                         (''Error executing tool '' @ name @ '': '' @ message e))),
           s'))"

definition stdio_list_tools :: "tool response" where
  "stdio_list_tools = Tools stdio_tools"

text \<open>
  The HTTP bridge: the handler of \<^verbatim>\<open>POST /mcp\<close>. The request body has a method and,
  optionally, parameters with a tool name and an argument object. The handlers are called
  without a check of the arguments; an error they throw becomes the error envelope with
  code 500.
\<close>

record call_params =
  p_name :: "string option"
  p_arguments :: "tool_arguments option"

record MCPRequest =
  req_method :: string
  req_params :: "call_params option"

definition http_switch ::
  "services \<Rightarrow> runtime \<Rightarrow> (nat \<Rightarrow> clock) \<Rightarrow> string \<Rightarrow> tool_arguments option \<Rightarrow> store \<Rightarrow>
   ((error + string) \<times> store) option" where
  "http_switch sv rt ticks name args s =
     (if name = ''add_memory'' then Some (http_handleAddMemory sv rt ticks args s)
      else if name = ''search_memories'' then Some (http_handleSearchMemories sv args s)
      else if name = ''get_memories'' then Some (http_handleGetMemories sv rt args s)
      else if name = ''extract_memories'' then Some (handleExtractMemories sv rt ticks args s)
      else if name = ''delete_memory'' then Some (http_handleDeleteMemory args s)
      else if name = ''list_projects'' then Some (http_handleListProjects sv s)
      else if name = ''list_project_files'' then Some (http_handleListProjectFiles args s)
      else if name = ''memory_bank_update'' then Some (http_handleMemoryBankUpdate rt ticks args s)
      else if name = ''export_memory_bank''
      then Some (http_handleExportMemoryBank sv rt ticks args s)
      else if name = ''add_todo'' then Some (handleAddTodo rt ticks args s)
      else if name = ''list_todos'' then Some (handleListTodos sv rt args s)
      else if name = ''update_todo'' then Some (handleUpdateTodo rt ticks args s)
      else if name = ''delete_todo'' then Some (handleDeleteTodo args s)
      else None)"

definition http_mcp ::
  "services \<Rightarrow> runtime \<Rightarrow> (nat \<Rightarrow> clock) \<Rightarrow> MCPRequest \<Rightarrow> store \<Rightarrow> tool response \<times> store" where
  "http_mcp sv rt ticks request s =
     (if req_method request = ''tools/list'' then (Tools http_tools, s)
      else if req_method request = ''tools/call''
      then
        (let name = (case req_params request of None \<Rightarrow> None | Some p \<Rightarrow> p_name p);
             args = (case req_params request of None \<Rightarrow> None | Some p \<Rightarrow> p_arguments p)
         in if truthy name
            then
              (case http_switch sv rt ticks (str name) args s of
                 None \<Rightarrow> (Failure 404 (''Unknown tool: '' @ str name), s)
               | Some (Inr text, s') \<Rightarrow> (Content text, s')
               | Some (Inl e, s') \<Rightarrow> (Failure 500 (''Internal server error: '' @ message e), s'))
            else (Failure 400 ''Missing tool name'', s))
      else (Failure 400 ''Invalid MCP method'', s))"

text \<open>What a result says about its kind: a result envelope or an error envelope.\<close>

fun is_content :: "'t response \<Rightarrow> bool" where
  "is_content (Content text) = True"
| "is_content (Failure code msg) = False"
| "is_content (Tools ts) = False"

section \<open>Notions of the statements\<close>

text \<open>
  A store on a new database file, before \<^verbatim>\<open>initialize\<close>, with the deduplication
  setting \<open>dd\<close>; and the memory data of given content, context, importance and
  timestamp with every other property absent.
\<close>

definition fresh_store :: "bool option \<Rightarrow> store" where
  "fresh_store dd = \<lparr>deduplication = dd, db = None, memories = [], todos = []\<rparr>"

definition memory_of :: "string \<Rightarrow> string \<Rightarrow> int \<Rightarrow> string \<Rightarrow> MemoryData" where
  "memory_of content ctx importance ts =
     \<lparr>d_content = Some content, d_originalContent = None, d_context = Some ctx,
      d_importance = Some importance, d_timestamp = ts, d_source = None,
      d_project = None, d_category = None, d_tags = None\<rparr>"

text \<open>The context \<^verbatim>\<open>addMemory\<close> works with: the default when the caller gives none.\<close>

definition context_of :: "MemoryData \<Rightarrow> string" where
  "context_of d = (case d_context d of None \<Rightarrow> ''general'' | Some c \<Rightarrow> c)"

text \<open>The rows a run of \<^verbatim>\<open>updateMemoryBank\<close> that fails nowhere inserts, in order.\<close>

fun bank_rows ::
  "runtime \<Rightarrow> (nat \<Rightarrow> string \<times> string) \<Rightarrow> nat \<Rightarrow> string option \<Rightarrow> string option \<Rightarrow>
   bank_memory list \<Rightarrow> mem_row list" where
  "bank_rows rt gen i project category [] = []"
| "bank_rows rt gen i project category (memory # rest) =
     bank_row rt (gen i) project category memory (or_default (b_content memory) [])
       # bank_rows rt gen (Suc i) project category rest"

text \<open>The invariant of a stored row that the specification states.\<close>

definition row_ok :: "mem_row \<Rightarrow> bool" where
  "row_ok r = (1 \<le> m_importance r \<and> m_importance r \<le> 10 \<and> m_context r \<noteq> [])"

text \<open>
  A \<^verbatim>\<open>tags\<close> column holding a string that is no JSON text: \<^verbatim>\<open>JSON.parse\<close> throws on
  it. The record of a memory row and of a todo row with the tags absent, every other
  property taken from the row's column; an empty \<^verbatim>\<open>project\<close> or \<^verbatim>\<open>context\<close> of a
  todo reads as absent.
\<close>

definition invalid_tags :: "runtime \<Rightarrow> string option \<Rightarrow> bool" where
  "invalid_tags rt tags = (case tags of None \<Rightarrow> False | Some t \<Rightarrow> JSON_parse rt t = None)"

definition absent_tags_memory :: "mem_row \<Rightarrow> StoredMemory" where
  "absent_tags_memory r =
     \<lparr>sm_id = m_id r, sm_content = m_content r, sm_originalContent = m_original_content r,
      sm_context = m_context r, sm_importance = m_importance r, sm_timestamp = m_timestamp r,
      sm_source = m_source r, sm_project = m_project r, sm_category = m_category r,
      sm_tags = None, sm_createdAt = m_created_at r, sm_updatedAt = m_updated_at r\<rparr>"

definition absent_tags_todo :: "todo_row \<Rightarrow> StoredTodo" where
  "absent_tags_todo t =
     \<lparr>st_id = t_id t, st_content = t_content t, st_status = t_status t,
      st_priority = t_priority t,
      st_project = (if t_project t = Some [] then None else t_project t),
      st_context = (if t_context t = Some [] then None else t_context t),
      st_tags = None, st_createdAt = t_created_at t, st_updatedAt = t_updated_at t\<rparr>"


section \<open>Example values\<close>

text \<open>
  Concrete inputs for the closed theorems below. The runtime's \<^verbatim>\<open>JSON.stringify\<close> is
  right for tags that need no escaping, its \<^verbatim>\<open>JSON.parse\<close> reads the empty array and
  throws on every other text, and its \<^verbatim>\<open>datetime()\<close> answers its argument. The clocks
  are what two calls draw.
\<close>

definition example_runtime :: runtime where
  "example_runtime =
     \<lparr>JSON_stringify = (\<lambda>ts. ''['' @ join '','' (map (\<lambda>t. dq @ t @ dq) ts) @ '']''),
      JSON_parse = (\<lambda>s. if s = ''[]'' then Some [] else None),
      sql_datetime = Some\<rparr>"

definition clock1 :: clock where
  "clock1 = \<lparr>new_id = ''m1abc'', iso_now = ''2025-01-01T10:00:00.000Z'',
              sql_now = ''2025-01-01 10:00:00''\<rparr>"

definition clock2 :: clock where
  "clock2 = \<lparr>new_id = ''m2def'', iso_now = ''2025-01-02T10:00:00.000Z'',
              sql_now = ''2025-01-02 10:00:00''\<rparr>"

text \<open>
  Collaborators for the closed theorems about the bridge: no enhancement, an extraction model
  that fails, no repository, and formatting functions that answer their argument or a fixed
  text.
\<close>

definition example_services :: services where
  "example_services =
     \<lparr>autoExtract = False, similarityThreshold = 8 / 10,
      enhanceMemory = (\<lambda>content ctx. content),
      extraction_answer = (\<lambda>text ctx. None),
      repoInfo = \<lparr>repoName = None, repoTags = [], isGitRepo = False\<rparr>,
      new_Date = Some, toLocaleString = (\<lambda>d. d), toFixed1 = (\<lambda>x. ''0.0''),
      stringify_export = (\<lambda>e. ''{}'')\<rparr>"

definition example_ticks :: "nat \<Rightarrow> clock" where
  "example_ticks i =
     \<lparr>new_id = replicate (Suc i) CHR ''k'', iso_now = ''2025-01-03T10:00:00.000Z'',
      sql_now = ''2025-01-03 10:00:00''\<rparr>"

text \<open>The store after \<^verbatim>\<open>initialize\<close> and one \<^verbatim>\<open>addMemory\<close> of ``foo bar''.\<close>

definition foo_bar_store :: store where
  "foo_bar_store =
     snd (addMemory example_runtime clock1 (memory_of ''foo bar'' ''c'' 3 ''2025-01-01T10:00:00.000Z'')
            (initialize (fresh_store None)))"

definition example_gen :: "nat \<Rightarrow> string \<times> string" where
  "example_gen i = (replicate (Suc i) CHR ''k'', ''2025-01-03T10:00:00.000Z'')"

definition bank_item :: "string option \<Rightarrow> bank_memory" where
  "bank_item c = \<lparr>b_content = c, b_importance = None, b_tags = None\<rparr>"

text \<open>
  A store whose tables hold one memory and one todo with a \<^verbatim>\<open>tags\<close> column that is no
  JSON text.
\<close>

definition bad_tags_memory :: mem_row where
  "bad_tags_memory =
     \<lparr>m_id = ''m1abc'', m_content = ''note'', m_original_content = None, m_context = ''general'',
      m_importance = 5, m_timestamp = ''2025-01-01T10:00:00.000Z'', m_source = ''manual'',
      m_project = None, m_category = None, m_tags = Some ''not json'', m_embedding = None,
      m_created_at = ''2025-01-01 10:00:00'', m_updated_at = ''2025-01-01 10:00:00''\<rparr>"

definition bad_tags_todo :: todo_row where
  "bad_tags_todo =
     \<lparr>t_id = ''t1abc'', t_content = ''task'', t_status = ''pending'', t_priority = ''medium'',
      t_project = None, t_context = None, t_tags = Some ''not json'',
      t_created_at = ''2025-01-01T10:00:00.000Z'', t_updated_at = ''2025-01-01T10:00:00.000Z''\<rparr>"

definition bad_tags_store :: store where
  "bad_tags_store =
     \<lparr>deduplication = None, db = Some \<lparr>closed = False, txn = None\<rparr>,
      memories = [bad_tags_memory], todos = [bad_tags_todo]\<rparr>"

section \<open>Properties of the similarity engine\<close>

declare split_ws.simps [simp del]
declare sql_like.simps [simp del]

lemma split_ws_nonempty: "split_ws s \<noteq> []"
  by (subst split_ws.simps) (simp add: Let_def)

lemma js_includes_sublist: "js_includes a b \<longleftrightarrow> sublist b a"
  by (induction a) (auto simp: sublist_Cons_right)

lemma js_includes_refl: "js_includes a a"
  by (simp add: js_includes_sublist)

lemma count_matches_filter:
  "count_matches qs cs n =
     n + length (filter (\<lambda>qw. \<exists>cw \<in> set cs. sublist qw cw \<or> sublist cw qw) qs)"
  by (induction qs arbitrary: n) (auto simp: list_ex_iff js_includes_sublist)

lemma calculateTextSimilarity_range:
  "0 \<le> calculateTextSimilarity q c \<and> calculateTextSimilarity q c \<le> 1"
proof -
  have "count_matches (split_ws (toLowerCase q)) (split_ws (toLowerCase c)) 0
          \<le> length (split_ws (toLowerCase q))"
    by (simp add: count_matches_filter)
  then show ?thesis
    by (simp add: calculateTextSimilarity_def Let_def split_ws_nonempty divide_le_eq_1)
qed

lemma word_matches_itself:
  "a \<in> set cs \<Longrightarrow> list_ex (\<lambda>cw. js_includes cw a \<or> js_includes a cw) cs"
  unfolding list_ex_iff using js_includes_refl by blast

lemma count_matches_self: "set qs \<subseteq> set cs \<Longrightarrow> count_matches qs cs n = n + length qs"
  by (induction qs arbitrary: n) (simp_all add: word_matches_itself)

lemma calculateTextSimilarity_self: "calculateTextSimilarity q q = 1"
  by (simp add: calculateTextSimilarity_def Let_def count_matches_self split_ws_nonempty)

subsection \<open>The words of the specification and the pieces of the split\<close>

lemma split_ws_Nil: "split_ws [] = [[]]"
  by (simp add: split_ws.simps)

lemma split_ws_space:
  "is_space c \<Longrightarrow> split_ws (c # cs) = [] # split_ws (dropWhile is_space cs)"
  by (subst split_ws.simps) simp

lemma split_ws_nonspace:
  assumes "\<not> is_space c"
  shows "split_ws (c # cs) = (c # hd (split_ws cs)) # tl (split_ws cs)"
proof -
  let ?w = "takeWhile (\<lambda>c. \<not> is_space c) cs" and ?r = "dropWhile (\<lambda>c. \<not> is_space c) cs"
  have cs: "split_ws cs = (if ?r = [] then [?w] else ?w # split_ws (dropWhile is_space ?r))"
    by (subst split_ws.simps) (simp add: Let_def)
  have "split_ws (c # cs)
          = (if ?r = [] then [c # ?w] else (c # ?w) # split_ws (dropWhile is_space ?r))"
    using assms by (subst split_ws.simps) (simp add: Let_def)
  with cs show ?thesis by simp
qed

lemma filter_split_dropWhile:
  "filter (\<lambda>w. w \<noteq> []) (split_ws (dropWhile is_space cs)) = filter (\<lambda>w. w \<noteq> []) (split_ws cs)"
  by (cases cs) (simp_all add: split_ws_space)

lemma hd_split_ws:
  "hd (split_ws cs) = [] \<longleftrightarrow> cs = [] \<or> is_space (hd cs)"
proof (cases cs)
  case Nil
  then show ?thesis by (simp add: split_ws_Nil)
next
  case (Cons a list)
  then show ?thesis
    by (cases "is_space a") (simp_all add: split_ws_space split_ws_nonspace)
qed

lemma spec_words_split:
  "spec_words s = filter (\<lambda>w. w \<noteq> []) (split_ws s)"
proof (induction s)
  case Nil
  show ?case by (simp add: split_ws_Nil)
next
  case (Cons c cs)
  show ?case
  proof (cases "is_space c")
    case True
    then show ?thesis
      using Cons by (simp add: split_ws_space filter_split_dropWhile)
  next
    case False
    have ne: "split_ws cs \<noteq> []" by (rule split_ws_nonempty)
    then obtain w ws where sp: "split_ws cs = w # ws" by (cases "split_ws cs") auto
    show ?thesis
    proof (cases "cs = [] \<or> is_space (hd cs)")
      case True
      with hd_split_ws[of cs] sp have "w = []" by simp
      with False True Cons sp show ?thesis by (simp add: split_ws_nonspace)
    next
      case nt: False
      with hd_split_ws[of cs] sp have "w \<noteq> []" by simp
      with False nt Cons sp show ?thesis by (simp add: split_ws_nonspace)
    qed
  qed
qed

lemma letters_not_space:
  "\<forall>c \<in> set ''ABCDEFGHIJKLMNOPQRSTUVWXYZ'' \<union> set ''abcdefghijklmnopqrstuvwxyz''. \<not> is_space c"
  by (simp add: is_space_def)

lemma is_space_lower: "is_space (lower_char c) = is_space c"
proof (cases "map_of (zip ''ABCDEFGHIJKLMNOPQRSTUVWXYZ'' ''abcdefghijklmnopqrstuvwxyz'') c")
  case None
  show ?thesis unfolding lower_char_def None by simp
next
  case (Some l)
  then have "(c, l) \<in> set (zip ''ABCDEFGHIJKLMNOPQRSTUVWXYZ'' ''abcdefghijklmnopqrstuvwxyz'')"
    by (rule map_of_SomeD)
  then have "c \<in> set ''ABCDEFGHIJKLMNOPQRSTUVWXYZ''" "l \<in> set ''abcdefghijklmnopqrstuvwxyz''"
    by (blast dest: set_zip_leftD set_zip_rightD)+
  with letters_not_space have "\<not> is_space c" "\<not> is_space l" by blast+
  then show ?thesis unfolding lower_char_def Some by simp
qed

lemma trimmed_lower: "trimmed (toLowerCase s) = trimmed s"
  by (cases s rule: rev_cases)
     (auto simp: trimmed_def toLowerCase_def hd_map last_map hd_append is_space_lower)

lemma dropWhile_space_last:
  "dropWhile is_space cs \<noteq> [] \<Longrightarrow> last (dropWhile is_space cs) = last cs"
  by (induction cs) (auto split: if_splits)

lemma dropWhile_space_Nil_last:
  "cs \<noteq> [] \<Longrightarrow> dropWhile is_space cs = [] \<Longrightarrow> is_space (last cs)"
  by (induction cs) (auto split: if_splits)

lemma dropWhile_space_hd:
  "dropWhile is_space cs \<noteq> [] \<Longrightarrow> \<not> is_space (hd (dropWhile is_space cs))"
  using hd_dropWhile[of is_space cs] by simp

lemma empty_in_tl_split:
  "[] \<in> set (tl (split_ws s)) \<longleftrightarrow> s \<noteq> [] \<and> is_space (last s)"
proof (induction "length s" arbitrary: s rule: less_induct)
  case less
  show ?case
  proof (cases s)
    case Nil
    then show ?thesis by (simp add: split_ws_Nil)
  next
    case (Cons c cs)
    show ?thesis
    proof (cases "is_space c")
      case False
      have "[] \<in> set (tl (split_ws cs)) \<longleftrightarrow> cs \<noteq> [] \<and> is_space (last cs)"
        using less[of cs] Cons by simp
      with False Cons show ?thesis by (simp add: split_ws_nonspace)
    next
      case True
      define d where "d = dropWhile is_space cs"
      have len: "length d < length s" unfolding d_def using Cons
        by (simp add: length_dropWhile_le le_imp_less_Suc)
      have ih: "[] \<in> set (tl (split_ws d)) \<longleftrightarrow> d \<noteq> [] \<and> is_space (last d)"
        using less[OF len] .
      have ne: "split_ws d \<noteq> []" by (rule split_ws_nonempty)
      have "[] \<in> set (split_ws d) \<longleftrightarrow> hd (split_ws d) = [] \<or> [] \<in> set (tl (split_ws d))"
        using ne by (cases "split_ws d") auto
      also have "\<dots> \<longleftrightarrow> d = [] \<or> is_space (last d)"
        using ih hd_split_ws[of d] dropWhile_space_hd[of cs] unfolding d_def by auto
      also have "\<dots> \<longleftrightarrow> is_space (last (c # cs))"
      proof (cases "cs = []")
        case True
        with \<open>is_space c\<close> show ?thesis by (simp add: d_def)
      next
        case cs: False
        show ?thesis
        proof (cases "d = []")
          case True
          with cs dropWhile_space_Nil_last[of cs] show ?thesis by (simp add: d_def)
        next
          case False
          then have "last d = last cs"
            unfolding d_def by (rule dropWhile_space_last)
          with False cs show ?thesis by simp
        qed
      qed
      finally show ?thesis using True Cons by (simp add: split_ws_space d_def)
    qed
  qed
qed

lemma empty_in_split: "[] \<in> set (split_ws s) \<longleftrightarrow> \<not> trimmed s"
proof -
  have ne: "split_ws s \<noteq> []" by (rule split_ws_nonempty)
  have "[] \<in> set (split_ws s) \<longleftrightarrow> hd (split_ws s) = [] \<or> [] \<in> set (tl (split_ws s))"
    using ne by (cases "split_ws s") auto
  then show ?thesis
    using hd_split_ws[of s] empty_in_tl_split[of s] by (auto simp: trimmed_def)
qed

lemma spec_words_trimmed: "trimmed s \<Longrightarrow> spec_words s = split_ws s"
  using empty_in_split[of s] by (auto simp: spec_words_split filter_id_conv)

lemma coverage_agrees:
  assumes "trimmed q" and "trimmed c"
  shows "calculateTextSimilarity q c = coverage_spec q c"
  using assms
  by (simp add: calculateTextSimilarity_def coverage_spec_def Let_def count_matches_filter
        split_ws_nonempty spec_words_trimmed trimmed_lower)

lemma coverage_examples:
  "calculateTextSimilarity ''zzz'' ''foo '' = 1" "coverage_spec ''zzz'' ''foo '' = 0"
  "calculateTextSimilarity '' foo bar'' ''foo'' = 2 / 3"
  "coverage_spec '' foo bar'' ''foo'' = 1 / 2"
  "calculateTextSimilarity ''Hello World'' ''hello there'' = 1 / 2"
  "coverage_spec ''Hello World'' ''hello there'' = 1 / 2"
  by (simp_all add: calculateTextSimilarity_def coverage_spec_def toLowerCase_def lower_char_def
        is_space_def split_ws.simps sublist_code)

text \<open>
  Claim C6. The score is not the ratio the claim states. \<^verbatim>\<open>split(/\s+/)\<close> leaves an empty
  piece for white space at the start or the end of a text, the code counts it as a word, and
  the empty word is a substring of every word: against the content ``foo '' the query ``zzz''
  scores 1 although it shares nothing with the word ``foo'', and the query `` foo bar'' scores
  2/3 against ``foo'' although one of its two words matches; ``Hello World'' scores 1/2
  against ``hello there'', as stated. The comment in the code calls the
  result the ratio of query words found, and its branch for a query without words is never
  taken. For texts that are not empty and neither start nor end with white space the score
  is the stated ratio. For all texts it lies between 0 and 1, and every text scores 1
  against itself.
\<close>

theorem calculateTextSimilarity_counts_empty_pieces:
  "calculateTextSimilarity ''zzz'' ''foo '' = 1 \<and> coverage_spec ''zzz'' ''foo '' = 0 \<and>
   calculateTextSimilarity '' foo bar'' ''foo'' = 2 / 3 \<and>
   coverage_spec '' foo bar'' ''foo'' = 1 / 2 \<and>
   calculateTextSimilarity ''Hello World'' ''hello there'' = 1 / 2 \<and>
   coverage_spec ''Hello World'' ''hello there'' = 1 / 2 \<and>
   (trimmed q \<and> trimmed c \<longrightarrow> calculateTextSimilarity q c = coverage_spec q c) \<and>
   0 \<le> calculateTextSimilarity q c \<and> calculateTextSimilarity q c \<le> 1 \<and>
   calculateTextSimilarity q q = 1"
  using coverage_examples coverage_agrees[of q c] calculateTextSimilarity_range[of q c]
    calculateTextSimilarity_self[of q]
  by blast

theorem calculateTextSimilarity_counts_empty_pieces_witness:
  "trimmed ''Hello World'' \<and> trimmed ''hello there'' \<and>
   calculateTextSimilarity ''Hello World'' ''hello there''
     = coverage_spec ''Hello World'' ''hello there'' \<and>
   coverage_spec ''Hello World'' ''hello there'' = 1 / 2"
proof -
  have t: "trimmed ''Hello World''" "trimmed ''hello there''"
    by (simp_all add: trimmed_def is_space_def)
  from calculateTextSimilarity_counts_empty_pieces[of "''Hello World''" "''hello there''"] t
  have "calculateTextSimilarity ''Hello World'' ''hello there''
          = coverage_spec ''Hello World'' ''hello there''"
    by blast
  with t coverage_examples(6) show ?thesis by blast
qed

text \<open>
  Claim C5. Both policies are total, but the empty query does not score 0 under query
  coverage: \<^verbatim>\<open>"".split(/\s+/)\<close> is the list holding the empty word, which every content
  word includes, so the score is 1, and the branch \<^verbatim>\<open>query.length > 0 ? ... : 0\<close> that
  would give 0 is never taken. The Jaccard score of two empty texts is 1 as well.
\<close>

theorem empty_query_scores_one:
  "calculateTextSimilarity [] ''hello world'' = 1 \<and> simpleTextSimilarity [] [] = 1"
  by (simp add: calculateTextSimilarity_self calculateTextSimilarity_def simpleTextSimilarity_def
        toLowerCase_def split_ws.simps lower_char_def is_space_def)


section \<open>Properties of the store\<close>

subsection \<open>Auxiliary facts\<close>

lemma set_sql_limit: "set (sql_limit n xs) \<subseteq> set xs"
  by (auto simp: sql_limit_def dest: in_set_takeD)

lemma set_order_by_desc [simp]: "set (order_by_desc k xs) = set xs"
  by (simp add: order_by_desc_def)


lemma with_dates_sel [simp]:
  "m_id (with_dates m) = m_id m" "m_content (with_dates m) = m_content m"
  "m_context (with_dates m) = m_context m" "m_importance (with_dates m) = m_importance m"
  "createdAt (with_dates m) = m_timestamp m" "updatedAt (with_dates m) = m_timestamp m"
  by (simp_all add: with_dates_def mem_row.defs row_memory.defs)

lemma with_similarity_sel [simp]:
  "m_id (with_similarity x m) = m_id m" "m_content (with_similarity x m) = m_content m"
  "m_context (with_similarity x m) = m_context m"
  "m_importance (with_similarity x m) = m_importance m"
  "similarity (with_similarity x m) = x"
  by (simp_all add: with_similarity_def row_memory.defs scored_memory.defs)

lemma addMemory_fresh:
  "addMemory rt ck (memory_of content ctx importance ts) (initialize (fresh_store dd)) =
     (Inr (Inserted
        \<lparr>sm_id = new_id ck, sm_content = content, sm_originalContent = None, sm_context = ctx,
         sm_importance = importance, sm_timestamp = ts, sm_source = ''manual'',
         sm_project = None, sm_category = None, sm_tags = None,
         sm_createdAt = iso_now ck, sm_updatedAt = iso_now ck\<rparr>),
      \<lparr>deduplication = dd, db = Some \<lparr>closed = False, txn = None\<rparr>,
       memories =
         [\<lparr>m_id = new_id ck, m_content = content, m_original_content = None, m_context = ctx,
           m_importance = importance, m_timestamp = ts, m_source = ''manual'',
           m_project = None, m_category = None, m_tags = None, m_embedding = None,
           m_created_at = sql_now ck, m_updated_at = sql_now ck\<rparr>],
       todos = []\<rparr>)"
  by (simp add: fresh_store_def memory_of_def initialize_def addMemory_def addMemory_insert_def
        findSimilarMemory_def similar_candidates_def sql_limit_def order_by_desc_def
        insert_memory_def Let_def)

subsection \<open>Deduplication\<close>

lemma first_similar_Some:
  "first_similar content threshold rows = Some e \<Longrightarrow>
     \<exists>r \<in> set rows. e = with_dates r \<and> calculateTextSimilarity content (m_content r) > threshold"
  by (induction rows) (auto split: if_splits)

lemma findSimilarMemory_sound:
  assumes "findSimilarMemory rows content ctx threshold = Some e"
  shows "\<exists>r \<in> set rows. e = with_dates r \<and> m_context r = ctx \<and>
           sql_like (''%'' @ take 50 content @ ''%'') (m_content r) \<and>
           calculateTextSimilarity content (m_content r) > threshold"
proof -
  from assms obtain r where r: "r \<in> set (similar_candidates rows content ctx)"
    and e: "e = with_dates r" "calculateTextSimilarity content (m_content r) > threshold"
    unfolding findSimilarMemory_def by (blast dest: first_similar_Some)
  from r have "r \<in> set (filter (\<lambda>r. m_context r = ctx \<and>
                 sql_like (''%'' @ take 50 content @ ''%'') (m_content r)) rows)"
    unfolding similar_candidates_def using set_sql_limit by fastforce
  with e show ?thesis by auto
qed

lemma updateMemory_unknown_column:
  "updateMemory now ident [(''content'', v1), (''importance'', v2), (''updatedAt'', v3)] rows
     = Inl (SqliteError ''SQLITE_ERROR: no such column: updatedAt'')"
  by (simp add: updateMemory_def memories_columns_def)

lemma foo_bar_store_eq:
  "foo_bar_store =
     \<lparr>deduplication = None, db = Some \<lparr>closed = False, txn = None\<rparr>,
      memories =
        [\<lparr>m_id = ''m1abc'', m_content = ''foo bar'', m_original_content = None, m_context = ''c'',
          m_importance = 3, m_timestamp = ''2025-01-01T10:00:00.000Z'', m_source = ''manual'',
          m_project = None, m_category = None, m_tags = None, m_embedding = None,
          m_created_at = ''2025-01-01 10:00:00'', m_updated_at = ''2025-01-01 10:00:00''\<rparr>],
      todos = []\<rparr>"
  by (simp add: foo_bar_store_def addMemory_fresh clock1_def)

text \<open>
  The lookup for a duplicate is gated by the \<^verbatim>\<open>LIKE\<close> filter of
  \<^verbatim>\<open>findSimilarMemory\<close>. The store holds ``foo bar'' in context ``c'', deduplication is
  on, and the new memory ``bar foo'' of the same context scores 1 against it, above 0.9. The
  stored content does not contain the new content as a substring, so the filter selects no
  candidate and \<^verbatim>\<open>addMemory\<close> inserts a second row under a new id.
\<close>

lemma addMemory_prefilter_inserts:
  "deduplication foo_bar_store \<noteq> Some False \<and>
   map (\<lambda>r. (m_context r, calculateTextSimilarity ''bar foo'' (m_content r))) (memories foo_bar_store)
     = [(''c'', 1)] \<and>
   map m_id (memories foo_bar_store) = [''m1abc''] \<and>
   map m_id (memories (snd (addMemory example_runtime clock2
                              (memory_of ''bar foo'' ''c'' 7 ''2025-01-02T10:00:00.000Z'')
                              foo_bar_store)))
     = [''m1abc'', ''m2def'']"
  unfolding foo_bar_store_eq by code_simp

lemma foo_found:
  "findSimilarMemory (memories foo_bar_store) ''foo''
     (context_of (memory_of ''foo'' ''c'' 7 ''2025-01-02T10:00:00.000Z'')) (9 / 10)
   = Some (with_dates (hd (memories foo_bar_store)))"
  unfolding foo_bar_store_eq by code_simp

text \<open>
  Claim C1. The merge never happens. With deduplication on and the store initialized, let
  \<^verbatim>\<open>findSimilarMemory\<close> find a record for the new memory: a stored row of the same
  context against which the new content scores more than 0.9. \<^verbatim>\<open>addMemory\<close> then
  calls \<^verbatim>\<open>updateMemory\<close> with the keys \<^verbatim>\<open>content\<close>, \<^verbatim>\<open>importance\<close> and
  \<^verbatim>\<open>updatedAt\<close>; table \<^verbatim>\<open>memories\<close> has no column \<^verbatim>\<open>updatedAt\<close> (its column is
  \<^verbatim>\<open>updated_at\<close>, which \<^verbatim>\<open>updateMemory\<close> sets itself), so the database rejects
  the statement and \<^verbatim>\<open>addMemory\<close> fails with that error. No record is returned, and
  the store is as before: the content of the existing row is not replaced and its importance
  is not raised.
\<close>

theorem addMemory_merge_rejected:
  assumes "deduplication s \<noteq> Some False" and "db s = Some conn" and "\<not> closed conn"
    and "d_content d = Some content"
    and "findSimilarMemory (memories s) content (context_of d) (9 / 10) = Some existing"
  shows "addMemory rt ck d s = (Inl (SqliteError ''SQLITE_ERROR: no such column: updatedAt''), s) \<and>
         (\<exists>r \<in> set (memories s). existing = with_dates r \<and> m_context r = context_of d \<and>
            calculateTextSimilarity content (m_content r) > 9 / 10)"
proof -
  have "addMemory rt ck d s = (Inl (SqliteError ''SQLITE_ERROR: no such column: updatedAt''), s)"
    using assms
    by (simp add: addMemory_def context_of_def Let_def updateMemory_unknown_column)
  with findSimilarMemory_sound[OF assms(5)] show ?thesis by blast
qed

theorem addMemory_merge_rejected_witness:
  "addMemory example_runtime clock2 (memory_of ''foo'' ''c'' 7 ''2025-01-02T10:00:00.000Z'')
     foo_bar_store
     = (Inl (SqliteError ''SQLITE_ERROR: no such column: updatedAt''), foo_bar_store) \<and>
   map (\<lambda>r. (m_id r, m_content r, m_importance r, m_context r)) (memories foo_bar_store)
     = [(''m1abc'', ''foo bar'', 3, ''c'')] \<and>
   calculateTextSimilarity ''foo'' ''foo bar'' = 1 \<and>
   deduplication foo_bar_store \<noteq> Some False"
proof -
  have "deduplication foo_bar_store \<noteq> Some False"
    and "db foo_bar_store = Some \<lparr>closed = False, txn = None\<rparr>"
    and "\<not> closed \<lparr>closed = False, txn = None\<rparr>"
    and "d_content (memory_of ''foo'' ''c'' 7 ''2025-01-02T10:00:00.000Z'') = Some ''foo''"
    by (simp_all add: foo_bar_store_eq memory_of_def)
  from addMemory_merge_rejected[OF this foo_found, of example_runtime clock2]
  have "addMemory example_runtime clock2 (memory_of ''foo'' ''c'' 7 ''2025-01-02T10:00:00.000Z'')
          foo_bar_store
        = (Inl (SqliteError ''SQLITE_ERROR: no such column: updatedAt''), foo_bar_store)"
    by blast
  moreover have "calculateTextSimilarity ''foo'' ''foo bar'' = 1"
    by (simp add: calculateTextSimilarity_def toLowerCase_def lower_char_def is_space_def
          split_ws.simps)
  ultimately show ?thesis by (simp add: foo_bar_store_eq)
qed


subsection \<open>Search\<close>










subsection \<open>The range of importance and the context\<close>

text \<open>
  Claim C4. \<^verbatim>\<open>addMemory\<close> and \<^verbatim>\<open>updateMemoryBank\<close> store the importance they are
  given, and \<^verbatim>\<open>addMemory\<close> the context it is given. On a new store: with importance 100
  and the empty context, the row \<^verbatim>\<open>addMemory\<close> writes has importance 100 and an empty
  context; a bank memory of importance \<open>-3\<close> is stored with importance \<open>-3\<close>; the tool
  \<^verbatim>\<open>add_memory\<close> with importance 100 stores importance 100; and the tool
  \<^verbatim>\<open>extract_memories\<close> with the empty context stores a memory with an empty context.
  Only the extraction client clamps the importance
  (\<^verbatim>\<open>Math.min(Math.max(memory.importance || 5, 1), 10)\<close>), and
  \<^verbatim>\<open>validateMemoryData\<close>, which rejects an importance outside 1 to 10, is never called.
\<close>

theorem importance_not_clamped:
  "map (\<lambda>r. (m_importance r, m_context r))
     (memories (snd (addMemory example_runtime clock1
                       (memory_of ''remember this'' [] 100 ''2025-01-01T10:00:00.000Z'')
                       (initialize (fresh_store None)))))
     = [(100, [])] \<and>
   \<not> list_all row_ok
       (memories (snd (addMemory example_runtime clock1
                         (memory_of ''remember this'' [] 100 ''2025-01-01T10:00:00.000Z'')
                         (initialize (fresh_store None))))) \<and>
   map m_importance
     (memories (snd (updateMemoryBank example_runtime example_gen (Some ''proj'') None
                       (Some [\<lparr>b_content = Some ''fact'', b_importance = Some (- 3), b_tags = None\<rparr>])
                       (initialize (fresh_store None)))))
     = [- 3] \<and>
   map m_importance
     (memories (snd (http_mcp example_services example_runtime example_ticks
                       \<lparr>req_method = ''tools/call'',
                        req_params =
                          Some \<lparr>p_name = Some ''add_memory'',
                                p_arguments =
                                  Some (empty_arguments\<lparr>a_content := Some ''remember this'',
                                                          a_importance := Some 100\<rparr>)\<rparr>\<rparr>
                       (initialize (fresh_store None)))))
     = [100] \<and>
   map (\<lambda>r. (m_content r, m_context r))
     (memories (snd (stdio_call_tool example_services example_runtime example_ticks
                       ''extract_memories''
                       (Some (empty_arguments\<lparr>a_text := Some ''We decided to use PostgreSQL for storage'',
                                               a_context := Some []\<rparr>))
                       (initialize (fresh_store None)))))
     = [(''We decided to use PostgreSQL for storage'', [])]"
proof -
  have "map m_importance
     (memories (snd (updateMemoryBank example_runtime example_gen (Some ''proj'') None
                       (Some [\<lparr>b_content = Some ''fact'', b_importance = Some (- 3), b_tags = None\<rparr>])
                       (initialize (fresh_store None)))))
     = [- 3]"
    by (simp add: updateMemoryBank_def initialize_def fresh_store_def sql_begin_def
          sql_commit_def insert_memory_def bank_row_def example_gen_def)
  moreover have "map m_importance
     (memories (snd (http_mcp example_services example_runtime example_ticks
                       \<lparr>req_method = ''tools/call'',
                        req_params =
                          Some \<lparr>p_name = Some ''add_memory'',
                                p_arguments =
                                  Some (empty_arguments\<lparr>a_content := Some ''remember this'',
                                                          a_importance := Some 100\<rparr>)\<rparr>\<rparr>
                       (initialize (fresh_store None)))))
     = [100]"
    by code_simp
  moreover have "map (\<lambda>r. (m_content r, m_context r))
     (memories (snd (stdio_call_tool example_services example_runtime example_ticks
                       ''extract_memories''
                       (Some (empty_arguments\<lparr>a_text := Some ''We decided to use PostgreSQL for storage'',
                                               a_context := Some []\<rparr>))
                       (initialize (fresh_store None)))))
     = [(''We decided to use PostgreSQL for storage'', [])]"
    by code_simp
  ultimately show ?thesis
    by (simp add: addMemory_fresh row_ok_def)
qed

text \<open>
  The sibling path: whatever the extraction model answers, every memory that
  \<^verbatim>\<open>ollama.extractMemories\<close> hands out has an importance from 1 to 10.
\<close>

lemma extractMemories_clamps:
  "case extractMemories sv text ctx of
     Inl e \<Rightarrow> True
   | Inr facts \<Rightarrow>
       list_all (\<lambda>f. case f_importance f of None \<Rightarrow> False | Some i \<Rightarrow> 1 \<le> i \<and> i \<le> 10) facts"
  by (auto simp: extractMemories_def list_all_iff split: option.splits)

subsection \<open>The memory bank is updated atomically\<close>

lemma length_bank_rows [simp]: "length (bank_rows rt gen i p c ms) = length ms"
  by (induction ms arbitrary: i) auto

lemma insert_all_None:
  "insert_all rt gen i p c ms rows = (None, rows') \<Longrightarrow> rows' = rows @ bank_rows rt gen i p c ms"
proof (induction ms arbitrary: i rows)
  case Nil
  then show ?case by simp
next
  case (Cons m ms)
  from Cons.prems obtain content where c: "b_content m = Some content"
    by (auto split: option.splits)
  with Cons.prems obtain rows1 where
    r1: "insert_memory (bank_row rt (gen i) p c m content) rows = Inr rows1"
    and rest: "insert_all rt gen (Suc i) p c ms rows1 = (None, rows')"
    by (auto split: sum.splits)
  from r1 have "rows1 = rows @ [bank_row rt (gen i) p c m content]"
    by (auto simp: insert_memory_def split: if_splits)
  with Cons.IH[OF rest] c show ?case by (simp add: js_or_def)
qed

lemma sql_begin_Inr:
  assumes "sql_begin conn s = Inr s1"
  shows "txn conn = None"
    and "s1 = s\<lparr>db := Some (conn\<lparr>txn := Some (memories s, todos s)\<rparr>)\<rparr>"
  using assms by (simp_all add: sql_begin_def split: if_splits option.splits)

lemma begin_then_rollback:
  assumes "db s = Some conn" and "sql_begin conn s = Inr s1"
  shows "sql_rollback (s1\<lparr>memories := rows\<rparr>) = s"
  using assms(1) sql_begin_Inr[OF assms(2)]
  by (cases s; cases conn) (simp add: sql_rollback_def)

lemma begin_then_commit:
  assumes "db s = Some conn" and "sql_begin conn s = Inr s1"
  shows "sql_commit (s1\<lparr>memories := rows\<rparr>) = s\<lparr>memories := rows\<rparr>"
  using assms(1) sql_begin_Inr[OF assms(2)]
  by (cases s; cases conn) (simp add: sql_commit_def)

lemma begin_memories: "sql_begin conn s = Inr s1 \<Longrightarrow> memories s1 = memories s"
  by (auto simp: sql_begin_def split: if_splits option.splits)

text \<open>
  Claim C7. \<^verbatim>\<open>updateMemoryBank\<close> either returns normally, and then the table holds its old
  rows followed by one new row for every memory of the batch, in order, with nothing else
  changed; or it hands an error to the caller, and then the store is exactly as it was
  before the call, whatever the statements before the failing one had inserted.
\<close>

theorem updateMemoryBank_atomic:
  "case updateMemoryBank rt gen project category batch s of
     (r, s') \<Rightarrow>
       (\<exists>ms. batch = Some ms \<and> r = Inr () \<and>
             s' = s\<lparr>memories := memories s @ bank_rows rt gen 0 project category ms\<rparr> \<and>
             length (memories s') = length (memories s) + length ms)
       \<or> (\<exists>e. r = Inl e \<and> s' = s)"
proof (cases "db s")
  case None
  then show ?thesis by (simp add: updateMemoryBank_def)
next
  case (Some conn)
  show ?thesis
  proof (cases "sql_begin conn s")
    case (Inl e)
    with Some show ?thesis by (simp add: updateMemoryBank_def)
  next
    case (Inr s1)
    note b = begin_then_rollback[OF Some Inr] begin_then_commit[OF Some Inr] begin_memories[OF Inr]
    show ?thesis
    proof (cases batch)
      case None
      with Some Inr b show ?thesis by (simp add: updateMemoryBank_def)
    next
      case (Some ms)
      obtain err rows where ia:
        "insert_all rt gen 0 project category ms (memories s) = (err, rows)"
        by (cases "insert_all rt gen 0 project category ms (memories s)")
      show ?thesis
      proof (cases err)
        case None
        with ia have "rows = memories s @ bank_rows rt gen 0 project category ms"
          by (simp add: insert_all_None)
        with None ia Some \<open>db s = Some conn\<close> Inr b show ?thesis
          by (simp add: updateMemoryBank_def)
      next
        case (Some e)
        with ia \<open>batch = Some ms\<close> \<open>db s = Some conn\<close> Inr b show ?thesis
          by (simp add: updateMemoryBank_def)
      qed
    qed
  qed
qed

lemma bank_update_fails_midway:
  "updateMemoryBank example_runtime example_gen (Some ''proj'') None
     (Some [bank_item (Some ''first''), bank_item None, bank_item (Some ''third'')]) foo_bar_store
   = (Inl (SqliteError ''SQLITE_CONSTRAINT: NOT NULL constraint failed: memories.content''),
      foo_bar_store)"
  unfolding foo_bar_store_eq by code_simp

lemma bank_update_succeeds:
  "map m_content
     (memories (snd (updateMemoryBank example_runtime example_gen (Some ''proj'') None
                       (Some [bank_item (Some ''first''), bank_item (Some ''second'')])
                       foo_bar_store)))
   = [''foo bar'', ''first'', ''second'']"
  unfolding foo_bar_store_eq by code_simp

theorem updateMemoryBank_atomic_witness:
  "(case updateMemoryBank example_runtime example_gen (Some ''proj'') None
           (Some [bank_item (Some ''first''), bank_item None, bank_item (Some ''third'')])
           foo_bar_store of
      (r, s') \<Rightarrow> r \<noteq> Inr () \<and> s' = foo_bar_store) \<and>
   (case updateMemoryBank example_runtime example_gen (Some ''proj'') None
           (Some [bank_item (Some ''first''), bank_item (Some ''second'')]) foo_bar_store of
      (r, s') \<Rightarrow> map m_content (memories s') = [''foo bar'', ''first'', ''second''])"
  using updateMemoryBank_atomic[where rt = example_runtime and gen = example_gen
          and project = "Some ''proj''" and category = None
          and batch = "Some [bank_item (Some ''first''), bank_item None, bank_item (Some ''third'')]"
          and s = foo_bar_store]
        bank_update_fails_midway bank_update_succeeds
  by (simp add: split_beta)


subsection \<open>Operations before initialization\<close>

text \<open>
  Claim C8, as stated, fails for \<^verbatim>\<open>close\<close>: on a store that was never initialized it
  returns normally and does nothing, where the claim has it fail with an error.
\<close>

theorem close_uninitialized_counterexample:
  "db (fresh_store None) = None \<and> close (fresh_store None) = (Inr (), fresh_store None)"
  by (simp add: close_def fresh_store_def)

text \<open>
  Claim C8, amended. Before \<^verbatim>\<open>initialize\<close>, every operation of the store other than
  \<^verbatim>\<open>close\<close> fails with the error ``Database not initialized'' and leaves the store as it
  is; \<^verbatim>\<open>close\<close> returns normally and leaves the store as it is.
\<close>

theorem uninitialized_fails_fast:
  assumes "db s = None"
  shows "addMemory rt ck d s = (Inl NotInitialized, s) \<and>
    searchMemories q so s = (Inl NotInitialized, s) \<and>
    getMemories rt go s = (Inl NotInitialized, s) \<and>
    deleteMemory i s = (Inl NotInitialized, s) \<and>
    getMemoryById i s = (Inl NotInitialized, s) \<and>
    listProjects s = (Inl NotInitialized, s) \<and>
    listProjectFiles p s = (Inl NotInitialized, s) \<and>
    updateMemoryBank rt gen p c b s = (Inl NotInitialized, s) \<and>
    exportMemoryBank rt now p c f s = (Inl NotInitialized, s) \<and>
    addTodo rt ck td s = (Inl NotInitialized, s) \<and>
    listTodos rt la s = (Inl NotInitialized, s) \<and>
    updateTodo rt now i u s = (Inl NotInitialized, s) \<and>
    deleteTodo i s = (Inl NotInitialized, s) \<and>
    getTodoById rt i s = (Inl NotInitialized, s) \<and>
    close s = (Inr (), s)"
  using assms
  by (simp add: addMemory_def searchMemories_def getMemories_def deleteMemory_def
      getMemoryById_def listProjects_def listProjectFiles_def updateMemoryBank_def
      exportMemoryBank_def addTodo_def listTodos_def updateTodo_def deleteTodo_def
      getTodoById_def close_def)

theorem uninitialized_fails_fast_witness:
  "addMemory example_runtime clock1 (memory_of ''foo'' ''c'' 7 ''2025-01-02T10:00:00.000Z'')
     (fresh_store None) = (Inl NotInitialized, fresh_store None) \<and>
   searchMemories (Some ''foo'') \<lparr>o_limit = None, o_context = None, o_threshold = None\<rparr>
     (fresh_store None) = (Inl NotInitialized, fresh_store None) \<and>
   deleteMemory (Some ''m1abc'') (fresh_store None) = (Inl NotInitialized, fresh_store None) \<and>
   listProjects (fresh_store None) = (Inl NotInitialized, fresh_store None) \<and>
   updateMemoryBank example_runtime example_gen (Some ''proj'') None
     (Some [bank_item (Some ''first'')]) (fresh_store None)
     = (Inl NotInitialized, fresh_store None) \<and>
   deleteTodo (Some ''t1abc'') (fresh_store None) = (Inl NotInitialized, fresh_store None) \<and>
   getTodoById example_runtime (Some ''t1abc'') (fresh_store None)
     = (Inl NotInitialized, fresh_store None)"
proof -
  have "db (fresh_store None) = None" by (simp add: fresh_store_def)
  from uninitialized_fails_fast[OF this] show ?thesis by blast
qed

subsection \<open>Tags that are no JSON text\<close>

lemma find_distinct_id:
  assumes "distinct (map t_id rows)" and "t \<in> set rows"
  shows "find (\<lambda>x. Some (t_id x) = Some (t_id t)) rows = Some t"
  using assms by (induction rows) (auto simp: image_iff)

lemma stored_of_row_invalid:
  "invalid_tags rt (m_tags r) \<Longrightarrow> stored_of_row rt r = absent_tags_memory r"
  by (auto simp: invalid_tags_def stored_of_row_def absent_tags_memory_def parse_tags_def
        js_or_def split: option.splits)

lemma todo_of_row_invalid:
  "invalid_tags rt (t_tags t) \<Longrightarrow> todo_of_row rt t = absent_tags_todo t"
  by (cases "t_project t"; cases "t_context t")
     (auto simp: invalid_tags_def todo_of_row_def absent_tags_todo_def parse_tags_def
        js_or_def or_null_def split: option.splits)

lemma find_Some_mem: "find P xs = Some x \<Longrightarrow> x \<in> set xs \<and> P x"
  by (induction xs) (auto split: if_splits)

lemma bad_store_facts:
  "db bad_tags_store = Some \<lparr>closed = False, txn = None\<rparr>"
  "memories bad_tags_store = [bad_tags_memory]" "todos bad_tags_store = [bad_tags_todo]"
  by (simp_all add: bad_tags_store_def)

text \<open>
  Claim C10. On an initialized store every read operation that deserializes tags returns
  normally and leaves the store unchanged, whatever the \<^verbatim>\<open>tags\<close> columns hold, and a row
  whose \<^verbatim>\<open>tags\<close> column is a string on which \<^verbatim>\<open>JSON.parse\<close> throws is handed out as
  its record with the tags absent and every other property as stored:
  \<^verbatim>\<open>exportMemoryBank\<close> hands out each such memory row that passes its filters, and
  whatever record it hands out for such a row is that record; \<^verbatim>\<open>listTodos\<close> hands out
  each such todo row that passes the filters when no limit is given, and with any arguments
  whatever record it hands out for such a row is that record; \<^verbatim>\<open>getTodoById\<close> hands
  out that record for the row it finds, and it finds the row of every id when the ids of
  table \<^verbatim>\<open>todos\<close> are distinct (\<^verbatim>\<open>id\<close> is its primary key).
\<close>

theorem invalid_tags_read_as_absent:
  assumes "db s = Some conn" and "\<not> closed conn"
  shows
    "(\<exists>ex. exportMemoryBank rt now project category format s = (Inr ex, s) \<and>
        (\<forall>r \<in> set (memories s).
           invalid_tags rt (m_tags r) \<and> (truthy project \<longrightarrow> m_project r = project) \<and>
           (truthy category \<longrightarrow> m_category r = category)
           \<longrightarrow> absent_tags_memory r \<in> set (e_memories ex)) \<and>
        (\<forall>x \<in> set (e_memories ex). \<exists>r \<in> set (memories s).
           sm_id x = m_id r \<and> (invalid_tags rt (m_tags r) \<longrightarrow> x = absent_tags_memory r))) \<and>
     (\<exists>ts. listTodos rt (Some a) s = (Inr ts, s) \<and>
        (\<forall>t \<in> set (todos s).
           invalid_tags rt (t_tags t) \<and> l_limit a = None \<and>
           (truthy (l_status a) \<longrightarrow> Some (t_status t) = l_status a) \<and>
           (truthy (l_priority a) \<longrightarrow> Some (t_priority t) = l_priority a) \<and>
           (truthy (l_project a) \<longrightarrow> t_project t = l_project a) \<and>
           (truthy (l_context a) \<longrightarrow> t_context t = l_context a)
           \<longrightarrow> absent_tags_todo t \<in> set ts) \<and>
        (\<forall>x \<in> set ts. \<exists>t \<in> set (todos s).
           st_id x = t_id t \<and> (invalid_tags rt (t_tags t) \<longrightarrow> x = absent_tags_todo t))) \<and>
     (\<exists>ts. listTodos rt None s = (Inr ts, s) \<and>
        (\<forall>t \<in> set (todos s). invalid_tags rt (t_tags t) \<longrightarrow> absent_tags_todo t \<in> set ts)) \<and>
     (\<exists>res. getTodoById rt ident s = (Inr res, s) \<and>
        (case res of
           None \<Rightarrow> True
         | Some x \<Rightarrow> \<exists>t \<in> set (todos s). Some (t_id t) = ident \<and>
                      (invalid_tags rt (t_tags t) \<longrightarrow> x = absent_tags_todo t))) \<and>
     (distinct (map t_id (todos s)) \<longrightarrow>
        (\<forall>t \<in> set (todos s). invalid_tags rt (t_tags t) \<longrightarrow>
           getTodoById rt (Some (t_id t)) s = (Inr (Some (absent_tags_todo t)), s)))"
proof -
  have export: "\<exists>ex. exportMemoryBank rt now project category format s = (Inr ex, s) \<and>
        (\<forall>r \<in> set (memories s).
           invalid_tags rt (m_tags r) \<and> (truthy project \<longrightarrow> m_project r = project) \<and>
           (truthy category \<longrightarrow> m_category r = category)
           \<longrightarrow> absent_tags_memory r \<in> set (e_memories ex)) \<and>
        (\<forall>x \<in> set (e_memories ex). \<exists>r \<in> set (memories s).
           sm_id x = m_id r \<and> (invalid_tags rt (m_tags r) \<longrightarrow> x = absent_tags_memory r))"
    using assms
    by (auto simp: exportMemoryBank_def Let_def image_iff stored_of_row_invalid[symmetric]
          intro!: bexI[where P = "\<lambda>r. _ = stored_of_row rt r"])
       (auto simp: stored_of_row_def)
  have list_some: "\<exists>ts. listTodos rt (Some a) s = (Inr ts, s) \<and>
        (\<forall>t \<in> set (todos s).
           invalid_tags rt (t_tags t) \<and> l_limit a = None \<and>
           (truthy (l_status a) \<longrightarrow> Some (t_status t) = l_status a) \<and>
           (truthy (l_priority a) \<longrightarrow> Some (t_priority t) = l_priority a) \<and>
           (truthy (l_project a) \<longrightarrow> t_project t = l_project a) \<and>
           (truthy (l_context a) \<longrightarrow> t_context t = l_context a)
           \<longrightarrow> absent_tags_todo t \<in> set ts) \<and>
        (\<forall>x \<in> set ts. \<exists>t \<in> set (todos s).
           st_id x = t_id t \<and> (invalid_tags rt (t_tags t) \<longrightarrow> x = absent_tags_todo t))"
  proof -
    define rows where "rows = order_by_desc t_created_at
        (filter (\<lambda>t. (if truthy (l_status a) then Some (t_status t) = l_status a else True) \<and>
                      (if truthy (l_priority a) then Some (t_priority t) = l_priority a else True) \<and>
                      (if truthy (l_project a) then t_project t = l_project a else True) \<and>
                      (if truthy (l_context a) then t_context t = l_context a else True))
           (todos s))"
    define raw where
      "raw = (case l_limit a of None \<Rightarrow> rows | Some n \<Rightarrow> if n = 0 then rows else sql_limit n rows)"
    have res: "listTodos rt (Some a) s = (Inr (map (todo_of_row rt) raw), s)"
      unfolding listTodos_def raw_def rows_def using assms by (simp add: Let_def)
    have "set raw \<subseteq> set rows"
      using set_sql_limit[of _ rows] by (auto simp: raw_def split: option.splits)
    then have sub: "set raw \<subseteq> set (todos s)" by (auto simp: rows_def)
    have full: "l_limit a = None \<Longrightarrow> raw = rows" by (simp add: raw_def)
    have complete: "\<forall>t \<in> set (todos s).
           invalid_tags rt (t_tags t) \<and> l_limit a = None \<and>
           (truthy (l_status a) \<longrightarrow> Some (t_status t) = l_status a) \<and>
           (truthy (l_priority a) \<longrightarrow> Some (t_priority t) = l_priority a) \<and>
           (truthy (l_project a) \<longrightarrow> t_project t = l_project a) \<and>
           (truthy (l_context a) \<longrightarrow> t_context t = l_context a)
           \<longrightarrow> absent_tags_todo t \<in> set (map (todo_of_row rt) raw)"
    proof (intro ballI impI)
      fix t assume t: "t \<in> set (todos s)"
        and h: "invalid_tags rt (t_tags t) \<and> l_limit a = None \<and>
           (truthy (l_status a) \<longrightarrow> Some (t_status t) = l_status a) \<and>
           (truthy (l_priority a) \<longrightarrow> Some (t_priority t) = l_priority a) \<and>
           (truthy (l_project a) \<longrightarrow> t_project t = l_project a) \<and>
           (truthy (l_context a) \<longrightarrow> t_context t = l_context a)"
      from t h have "t \<in> set rows" by (simp add: rows_def)
      with h full have "t \<in> set raw" by simp
      then have "todo_of_row rt t \<in> set (map (todo_of_row rt) raw)" by simp
      with h show "absent_tags_todo t \<in> set (map (todo_of_row rt) raw)"
        by (simp add: todo_of_row_invalid)
    qed
    have sound: "\<forall>x \<in> set (map (todo_of_row rt) raw). \<exists>t \<in> set (todos s).
           st_id x = t_id t \<and> (invalid_tags rt (t_tags t) \<longrightarrow> x = absent_tags_todo t)"
    proof
      fix x assume "x \<in> set (map (todo_of_row rt) raw)"
      then obtain t where t: "t \<in> set raw" and x: "x = todo_of_row rt t" by auto
      from t sub have "t \<in> set (todos s)" by blast
      moreover have "st_id x = t_id t" by (simp add: x todo_of_row_def)
      moreover have "invalid_tags rt (t_tags t) \<longrightarrow> x = absent_tags_todo t"
        by (simp add: x todo_of_row_invalid)
      ultimately show "\<exists>t \<in> set (todos s).
           st_id x = t_id t \<and> (invalid_tags rt (t_tags t) \<longrightarrow> x = absent_tags_todo t)"
        by blast
    qed
    from res complete sound show ?thesis by blast
  qed
  have list_none: "\<exists>ts. listTodos rt None s = (Inr ts, s) \<and>
        (\<forall>t \<in> set (todos s). invalid_tags rt (t_tags t) \<longrightarrow> absent_tags_todo t \<in> set ts)"
  proof -
    have "listTodos rt None s = (Inr (map (todo_of_row rt) (order_by_desc t_created_at (todos s))), s)"
      using assms by (simp add: listTodos_def Let_def)
    moreover have "\<forall>t \<in> set (todos s). invalid_tags rt (t_tags t) \<longrightarrow>
        absent_tags_todo t \<in> set (map (todo_of_row rt) (order_by_desc t_created_at (todos s)))"
      by (auto simp: image_iff todo_of_row_invalid[symmetric])
    ultimately show ?thesis by blast
  qed
  have get_sound: "\<exists>res. getTodoById rt ident s = (Inr res, s) \<and>
        (case res of
           None \<Rightarrow> True
         | Some x \<Rightarrow> \<exists>t \<in> set (todos s). Some (t_id t) = ident \<and>
                      (invalid_tags rt (t_tags t) \<longrightarrow> x = absent_tags_todo t))"
  proof (cases "find (\<lambda>t. Some (t_id t) = ident) (todos s)")
    case None
    with assms show ?thesis by (simp add: getTodoById_def)
  next
    case (Some t)
    from find_Some_mem[OF Some] have "t \<in> set (todos s)" "Some (t_id t) = ident" by simp_all
    moreover have "getTodoById rt ident s = (Inr (Some (todo_of_row rt t)), s)"
      using assms Some by (simp add: getTodoById_def)
    ultimately show ?thesis
      by (auto simp: todo_of_row_invalid intro!: bexI[of _ t])
  qed
  have get_row: "distinct (map t_id (todos s)) \<longrightarrow>
        (\<forall>t \<in> set (todos s). invalid_tags rt (t_tags t) \<longrightarrow>
           getTodoById rt (Some (t_id t)) s = (Inr (Some (absent_tags_todo t)), s))"
  proof (intro impI ballI)
    fix t assume d: "distinct (map t_id (todos s))" and t: "t \<in> set (todos s)"
      and inv: "invalid_tags rt (t_tags t)"
    from find_distinct_id[OF d t] assms inv
    show "getTodoById rt (Some (t_id t)) s = (Inr (Some (absent_tags_todo t)), s)"
      by (simp add: getTodoById_def todo_of_row_invalid)
  qed
  from export list_some list_none get_sound get_row show ?thesis by blast
qed


theorem invalid_tags_read_as_absent_witness:
  "(\<exists>ex. exportMemoryBank example_runtime ''2025-01-04T10:00:00.000Z'' None None (Some ''json'')
            bad_tags_store = (Inr ex, bad_tags_store) \<and>
          \<lparr>sm_id = ''m1abc'', sm_content = ''note'', sm_originalContent = None,
           sm_context = ''general'', sm_importance = 5, sm_timestamp = ''2025-01-01T10:00:00.000Z'',
           sm_source = ''manual'', sm_project = None, sm_category = None, sm_tags = None,
           sm_createdAt = ''2025-01-01 10:00:00'', sm_updatedAt = ''2025-01-01 10:00:00''\<rparr>
            \<in> set (e_memories ex)) \<and>
   (\<exists>ex. exportMemoryBank example_runtime ''2025-01-04T10:00:00.000Z'' None None (Some ''json'')
            (bad_tags_store\<lparr>todos := []\<rparr>) = (Inr ex, bad_tags_store\<lparr>todos := []\<rparr>) \<and>
          absent_tags_memory bad_tags_memory \<in> set (e_memories ex)) \<and>
   (\<exists>ts. listTodos example_runtime
            (Some \<lparr>l_status = Some ''pending'', l_priority = None, l_project = None,
                   l_context = None, l_limit = None\<rparr>)
            bad_tags_store = (Inr ts, bad_tags_store) \<and>
          \<lparr>st_id = ''t1abc'', st_content = ''task'', st_status = ''pending'',
           st_priority = ''medium'', st_project = None, st_context = None, st_tags = None,
           st_createdAt = ''2025-01-01T10:00:00.000Z'',
           st_updatedAt = ''2025-01-01T10:00:00.000Z''\<rparr> \<in> set ts) \<and>
   getTodoById example_runtime (Some ''t1abc'') (bad_tags_store\<lparr>memories := []\<rparr>)
     = (Inr (Some \<lparr>st_id = ''t1abc'', st_content = ''task'', st_status = ''pending'',
                   st_priority = ''medium'', st_project = None, st_context = None,
                   st_tags = None, st_createdAt = ''2025-01-01T10:00:00.000Z'',
                   st_updatedAt = ''2025-01-01T10:00:00.000Z''\<rparr>),
        bad_tags_store\<lparr>memories := []\<rparr>) \<and>
   m_tags bad_tags_memory = Some ''not json'' \<and> t_tags bad_tags_todo = Some ''not json'' \<and>
   JSON_parse example_runtime ''not json'' = None"
proof -
  have inv: "invalid_tags example_runtime (m_tags bad_tags_memory)"
    "invalid_tags example_runtime (t_tags bad_tags_todo)"
    by (simp_all add: invalid_tags_def bad_tags_memory_def bad_tags_todo_def example_runtime_def)
  have conn: "\<not> closed \<lparr>closed = False, txn = None\<rparr>" by simp
  have abs: "absent_tags_memory bad_tags_memory =
          \<lparr>sm_id = ''m1abc'', sm_content = ''note'', sm_originalContent = None,
           sm_context = ''general'', sm_importance = 5, sm_timestamp = ''2025-01-01T10:00:00.000Z'',
           sm_source = ''manual'', sm_project = None, sm_category = None, sm_tags = None,
           sm_createdAt = ''2025-01-01 10:00:00'', sm_updatedAt = ''2025-01-01 10:00:00''\<rparr>"
    "absent_tags_todo bad_tags_todo =
          \<lparr>st_id = ''t1abc'', st_content = ''task'', st_status = ''pending'',
           st_priority = ''medium'', st_project = None, st_context = None, st_tags = None,
           st_createdAt = ''2025-01-01T10:00:00.000Z'',
           st_updatedAt = ''2025-01-01T10:00:00.000Z''\<rparr>"
    by (simp_all add: absent_tags_memory_def absent_tags_todo_def bad_tags_memory_def
          bad_tags_todo_def)
  note a = invalid_tags_read_as_absent[where s = bad_tags_store and rt = example_runtime
      and now = "''2025-01-04T10:00:00.000Z''" and project = None and category = None
      and format = "Some ''json''"
      and a = "\<lparr>l_status = Some ''pending'', l_priority = None, l_project = None,
                 l_context = None, l_limit = None\<rparr>"
      and ident = "Some ''t1abc''", OF bad_store_facts(1) conn]
  note b = invalid_tags_read_as_absent[where s = "bad_tags_store\<lparr>todos := []\<rparr>"
      and rt = example_runtime
      and now = "''2025-01-04T10:00:00.000Z''" and project = None and category = None
      and format = "Some ''json''" and conn = "\<lparr>closed = False, txn = None\<rparr>"]
  note c = invalid_tags_read_as_absent[where s = "bad_tags_store\<lparr>memories := []\<rparr>"
      and rt = example_runtime and conn = "\<lparr>closed = False, txn = None\<rparr>"]
  have 1: "\<exists>ex. exportMemoryBank example_runtime ''2025-01-04T10:00:00.000Z'' None None (Some ''json'')
            bad_tags_store = (Inr ex, bad_tags_store) \<and>
          absent_tags_memory bad_tags_memory \<in> set (e_memories ex)"
    using a inv by (simp add: bad_store_facts) blast
  have 2: "\<exists>ex. exportMemoryBank example_runtime ''2025-01-04T10:00:00.000Z'' None None (Some ''json'')
            (bad_tags_store\<lparr>todos := []\<rparr>) = (Inr ex, bad_tags_store\<lparr>todos := []\<rparr>) \<and>
          absent_tags_memory bad_tags_memory \<in> set (e_memories ex)"
    using b inv by (simp add: bad_store_facts) blast
  have 3: "\<exists>ts. listTodos example_runtime
            (Some \<lparr>l_status = Some ''pending'', l_priority = None, l_project = None,
                   l_context = None, l_limit = None\<rparr>)
            bad_tags_store = (Inr ts, bad_tags_store) \<and>
          absent_tags_todo bad_tags_todo \<in> set ts"
    using a inv by (simp add: bad_store_facts bad_tags_todo_def) blast
  have 4: "getTodoById example_runtime (Some ''t1abc'') (bad_tags_store\<lparr>memories := []\<rparr>)
     = (Inr (Some (absent_tags_todo bad_tags_todo)), bad_tags_store\<lparr>memories := []\<rparr>)"
    using c inv by (simp add: bad_store_facts bad_tags_todo_def)
  have 5: "m_tags bad_tags_memory = Some ''not json'' \<and> t_tags bad_tags_todo = Some ''not json'' \<and>
           JSON_parse example_runtime ''not json'' = None"
    by (simp add: bad_tags_memory_def bad_tags_todo_def example_runtime_def)
  from 1[unfolded abs] 2 3[unfolded abs] 4[unfolded abs] 5 show ?thesis by blast
qed


section \<open>Properties of the bridge\<close>

subsection \<open>Ids that are not in the store\<close>

lemma filter_absent_id:
  "ident \<notin> m_id ` set rows \<Longrightarrow> filter (\<lambda>r. m_id r \<noteq> ident) rows = rows"
  by (induction rows) auto

lemma find_absent_todo:
  "ident \<notin> t_id ` set rows \<Longrightarrow> find (\<lambda>t. t_id t = ident) rows = None"
  by (induction rows) auto

lemma deleteMemory_absent:
  assumes "db s = Some conn" and "\<not> closed conn" and "ident \<notin> set (map m_id (memories s))"
  shows "deleteMemory (Some ident) s = (Inr False, s)"
  using assms by (simp add: deleteMemory_def filter_absent_id Let_def)

lemma updateTodo_absent:
  assumes "db s = Some conn" and "\<not> closed conn" and "ident \<notin> set (map t_id (todos s))"
  shows "updateTodo rt now (Some ident) updates s = (Inr None, s)"
  using assms by (simp add: updateTodo_def getTodoById_def find_absent_todo)

text \<open>
  Claim C9. On an initialized store, for an id that no memory and no todo has:
  \<^verbatim>\<open>deleteMemory\<close> returns \<^verbatim>\<open>false\<close> and \<^verbatim>\<open>updateTodo\<close> returns \<^verbatim>\<open>null\<close>,
  neither throws, and the store is unchanged; both transports answer \<^verbatim>\<open>delete_memory\<close>
  and \<^verbatim>\<open>update_todo\<close> for that id with a result envelope whose text says ``not found'',
  not with an error envelope, and leave the store unchanged.
\<close>

theorem absent_id_not_found:
  assumes "db s = Some conn" and "\<not> closed conn"
    and "ident \<notin> set (map m_id (memories s))" and "ident \<notin> set (map t_id (todos s))"
    and "a_id a = Some ident"
  shows "deleteMemory (Some ident) s = (Inr False, s) \<and>
     updateTodo rt now (Some ident) updates s = (Inr None, s) \<and>
     stdio_call_tool sv rt ticks ''delete_memory'' (Some a) s
       = (Content (''Memory with ID '' @ dq @ ident @ dq @ '' not found''), s) \<and>
     http_mcp sv rt ticks
         \<lparr>req_method = ''tools/call'',
          req_params = Some \<lparr>p_name = Some ''delete_memory'', p_arguments = Some a\<rparr>\<rparr> s
       = (Content (''Memory with ID '' @ ident @ '' not found.''), s) \<and>
     stdio_call_tool sv rt ticks ''update_todo'' (Some a) s
       = (Content (''Todo with ID '' @ ident @ '' not found.''), s) \<and>
     http_mcp sv rt ticks
         \<lparr>req_method = ''tools/call'',
          req_params = Some \<lparr>p_name = Some ''update_todo'', p_arguments = Some a\<rparr>\<rparr> s
       = (Content (''Todo with ID '' @ ident @ '' not found.''), s)"
proof -
  note d = deleteMemory_absent[OF assms(1,2,3)]
  note u = updateTodo_absent[OF assms(1,2,4)]
  have "stdio_call_tool sv rt ticks ''delete_memory'' (Some a) s
       = (Content (''Memory with ID '' @ dq @ ident @ dq @ '' not found''), s)"
    using d assms(5)
    by (simp add: stdio_call_tool_def stdio_switch_def checked_def missing_def
          stdio_handleDeleteMemory_def)
  moreover have "http_mcp sv rt ticks
         \<lparr>req_method = ''tools/call'',
          req_params = Some \<lparr>p_name = Some ''delete_memory'', p_arguments = Some a\<rparr>\<rparr> s
       = (Content (''Memory with ID '' @ ident @ '' not found.''), s)"
    using d assms(5)
    by (simp add: http_mcp_def http_switch_def http_handleDeleteMemory_def)
  moreover have "stdio_call_tool sv rt ticks ''update_todo'' (Some a) s
       = (Content (''Todo with ID '' @ ident @ '' not found.''), s)"
    using u[of rt "iso_now (ticks 0)"] assms(5)
    by (simp add: stdio_call_tool_def stdio_switch_def checked_def missing_def
          handleUpdateTodo_def)
  moreover have "http_mcp sv rt ticks
         \<lparr>req_method = ''tools/call'',
          req_params = Some \<lparr>p_name = Some ''update_todo'', p_arguments = Some a\<rparr>\<rparr> s
       = (Content (''Todo with ID '' @ ident @ '' not found.''), s)"
    using u[of rt "iso_now (ticks 0)"] assms(5)
    by (simp add: http_mcp_def http_switch_def handleUpdateTodo_def)
  ultimately show ?thesis using d u by blast
qed

theorem absent_id_not_found_witness:
  "deleteMemory (Some ''nonexistent-id'') foo_bar_store = (Inr False, foo_bar_store) \<and>
   updateTodo example_runtime ''2025-01-03T10:00:00.000Z'' (Some ''nonexistent-id'')
       \<lparr>u_content = None, u_status = Some ''completed'', u_priority = None, u_project = None,
        u_context = None, u_tags = None\<rparr> foo_bar_store
     = (Inr None, foo_bar_store) \<and>
   stdio_call_tool example_services example_runtime example_ticks ''delete_memory''
       (Some (empty_arguments\<lparr>a_id := Some ''nonexistent-id''\<rparr>)) foo_bar_store
     = (Content (''Memory with ID '' @ dq @ ''nonexistent-id'' @ dq @ '' not found''), foo_bar_store) \<and>
   http_mcp example_services example_runtime example_ticks
       \<lparr>req_method = ''tools/call'',
        req_params = Some \<lparr>p_name = Some ''update_todo'',
                           p_arguments = Some (empty_arguments\<lparr>a_id := Some ''nonexistent-id''\<rparr>)\<rparr>\<rparr>
       foo_bar_store
     = (Content ''Todo with ID nonexistent-id not found.'', foo_bar_store)"
proof -
  have "db foo_bar_store = Some \<lparr>closed = False, txn = None\<rparr>"
    and "\<not> closed \<lparr>closed = False, txn = None\<rparr>"
    and "''nonexistent-id'' \<notin> set (map m_id (memories foo_bar_store))"
    and "''nonexistent-id'' \<notin> set (map t_id (todos foo_bar_store))"
    and "a_id (empty_arguments\<lparr>a_id := Some ''nonexistent-id''\<rparr>) = Some ''nonexistent-id''"
    by (simp_all add: foo_bar_store_eq)
  from absent_id_not_found[OF this] show ?thesis by simp
qed

subsection \<open>The two transports\<close>

text \<open>
  Both tool lists advertise the same thirteen names with the same argument schemas (types,
  required properties, enumerations, bounds); some of their descriptions differ in wording.
\<close>

lemma tool_lists_agree:
  "map tool_shape http_tools = map tool_shape stdio_tools \<and>
   map tool_name stdio_tools =
     [''add_memory'', ''search_memories'', ''get_memories'', ''extract_memories'',
      ''delete_memory'', ''list_projects'', ''list_project_files'', ''memory_bank_update'',
      ''export_memory_bank'', ''add_todo'', ''list_todos'', ''update_todo'', ''delete_todo'']"
  by (simp add: http_tools_def stdio_tools_def tool_shape_def object_schema_def
        string_property_def string_item_def enum_property_def number_property_def
        array_property_def)

text \<open>
  Claim C3. The transports do not answer every call alike. On a new initialized store,
  \<^verbatim>\<open>get_memories\<close> without an argument object gets a result envelope from the direct
  transport, which puts \<^verbatim>\<open>{}\<close> in place of the absent object, and the error envelope
  with code 500 from the HTTP bridge, which reads a property of the absent object.
  \<^verbatim>\<open>delete_memory\<close> with an argument object that has no \<^verbatim>\<open>id\<close> gets an error envelope
  from the direct transport, which checks for the property, and a result envelope from the
  HTTP bridge, which does not.
\<close>

theorem transports_disagree:
  "stdio_call_tool sv rt ticks ''get_memories'' None (initialize (fresh_store dd))
     = (Content ''No memories found'', initialize (fresh_store dd)) \<and>
   http_mcp sv rt ticks
       \<lparr>req_method = ''tools/call'',
        req_params = Some \<lparr>p_name = Some ''get_memories'', p_arguments = None\<rparr>\<rparr>
       (initialize (fresh_store dd))
     = (Failure 500 (''Internal server error: '' @ message no_arguments_error),
        initialize (fresh_store dd)) \<and>
   stdio_call_tool sv rt ticks ''delete_memory'' (Some empty_arguments) (initialize (fresh_store dd))
     = (Failure InternalError
          (message (McpError InternalError
             (''Error executing tool delete_memory: '' @
              message (McpError InvalidParams ''Missing required parameter: id'')))),
        initialize (fresh_store dd)) \<and>
   http_mcp sv rt ticks
       \<lparr>req_method = ''tools/call'',
        req_params = Some \<lparr>p_name = Some ''delete_memory'', p_arguments = Some empty_arguments\<rparr>\<rparr>
       (initialize (fresh_store dd))
     = (Content ''Memory with ID undefined not found.'', initialize (fresh_store dd)) \<and>
   is_content (Content ''No memories found'' :: tool response) \<and>
   \<not> is_content (Failure 500 (''Internal server error: '' @ message no_arguments_error)
                   :: tool response)"
  by (simp add: stdio_call_tool_def stdio_switch_def or_empty_def stdio_handleGetMemories_def
       getMemories_def initialize_def fresh_store_def empty_arguments_def sql_limit_def
       order_by_desc_def http_mcp_def http_switch_def http_handleGetMemories_def
       no_arguments_error_def checked_def missing_def InternalError_def InvalidParams_def
       show_int_def http_handleDeleteMemory_def deleteMemory_def)

end
